theory Spec2Isabelle
  imports Main "HOL-Library.Sublist" "HOL-Library.Char_ord" "HOL-Library.List_Lexorder"
    "HOL-Library.AList"
begin

section \<open>Strings and the regular expressions of the source\<close>

text \<open>
  JavaScript strings are modelled as \<^typ>\<open>string\<close>, one \<^typ>\<open>char\<close> per code unit; the
  model covers code units below 256. The character classes of the regular expressions
  are written out for that range: \<open>\w\<close> is \<open>[A-Za-z0-9_]\<close>, \<open>\s\<close> is the ASCII
  white space together with the no-break space, and \<open>.\<close> is every character but the
  line terminators. The letters of that range are the ASCII letters and the code units
  192 to 222 (upper case, but for the multiplication sign 215) and 224 to 254 (lower
  case, but for the division sign 247), 32 apart. Three code units have an upper case
  that is not one code unit below 256: the sharp s (223) becomes \<open>SS\<close>, and the micro
  sign (181) and the y with diaeresis (255) become code units from 256 on, which the
  model cannot hold and leaves as they are.
\<close>

definition is_upper :: "char \<Rightarrow> bool" where
  "is_upper c = (let n = (of_char c :: nat) in 65 \<le> n \<and> n \<le> 90)"

definition is_lower :: "char \<Rightarrow> bool" where
  "is_lower c = (let n = (of_char c :: nat) in 97 \<le> n \<and> n \<le> 122)"

definition is_digit :: "char \<Rightarrow> bool" where
  "is_digit c = (let n = (of_char c :: nat) in 48 \<le> n \<and> n \<le> 57)"

definition is_word :: "char \<Rightarrow> bool" where
  "is_word c = (is_upper c \<or> is_lower c \<or> is_digit c \<or> c = CHR ''_'')"

definition is_space :: "char \<Rightarrow> bool" where
  "is_space c = (let n = (of_char c :: nat) in (9 \<le> n \<and> n \<le> 13) \<or> n = 32 \<or> n = 160)"

definition is_line_terminator :: "char \<Rightarrow> bool" where
  "is_line_terminator c = (c = CHR 0x0A \<or> c = CHR 0x0D)"

definition to_lower :: "char \<Rightarrow> char" where
  "to_lower c =
     (let n = (of_char c :: nat)
      in if is_upper c \<or> (192 \<le> n \<and> n \<le> 222 \<and> n \<noteq> 215) then char_of (n + 32) else c)"

definition to_upper :: "char \<Rightarrow> char" where
  "to_upper c =
     (let n = (of_char c :: nat)
      in if is_lower c \<or> (224 \<le> n \<and> n \<le> 254 \<and> n \<noteq> 247) then char_of (n - 32) else c)"

text \<open>\<open>toUpperCase\<close> of a string of one code unit.\<close>

definition toUpperCase :: "char \<Rightarrow> string" where
  "toUpperCase c = (if c = CHR 0xDF then ''SS'' else [to_upper c])"

text \<open>The double quote.\<close>

abbreviation DQ :: string where
  "DQ \<equiv> [CHR 0x22]"

text \<open>The decimal form of a number, as a template literal or \<open>String\<close> prints it.\<close>

fun string_of_nat :: "nat \<Rightarrow> string" where
  "string_of_nat n =
     (if n < 10 then [char_of (48 + n)]
      else string_of_nat (n div 10) @ [char_of (48 + n mod 10)])"

declare string_of_nat.simps [simp del]

definition string_of_int :: "int \<Rightarrow> string" where
  "string_of_int i = (if i < 0 then CHR ''-'' # string_of_nat (nat (- i)) else string_of_nat (nat i))"

section \<open>Raw Record Normalizer\<close>

subsection \<open>normalizeTypes\<close>

text \<open>
  \<open>name.replace(/Array\.<(.+)>/, '$1[]')\<close> replaces the leftmost match only. At a
  position where \<open>Array.<\<close> starts, the greedy \<open>(.+)\<close> runs over the characters up to
  the next line terminator and backtracks to the last \<open>>\<close> in that run; the group
  has to keep one character at least.
\<close>

fun split_last_gt :: "string \<Rightarrow> (string \<times> string) option" where
  "split_last_gt [] = None"
| "split_last_gt (c # cs) =
     (case split_last_gt cs of
        Some (g, a) \<Rightarrow> Some (c # g, a)
      | None \<Rightarrow> if c = CHR ''>'' then Some ([], cs) else None)"

definition match_array :: "string \<Rightarrow> (string \<times> string) option" where
  "match_array s =
     (if prefix ''Array.<'' s then
        (let rest = drop 7 s;
             run = takeWhile (\<lambda>c. \<not> is_line_terminator c) rest
         in case split_last_gt run of
              Some (g, a) \<Rightarrow>
                if g \<noteq> [] then Some (g, a @ dropWhile (\<lambda>c. \<not> is_line_terminator c) rest)
                else None
            | None \<Rightarrow> None)
      else None)"

fun replace_array :: "string \<Rightarrow> string" where
  "replace_array [] = []"
| "replace_array (c # cs) =
     (case match_array (c # cs) of
        Some (g, rest) \<Rightarrow> g @ ''[]'' @ rest
      | None \<Rightarrow> c # replace_array cs)"

text \<open>
  \<open>.replace(/.</g, '<')\<close>: the dot of the pattern is not escaped, so every character
  that is not a line terminator and stands before a \<open><\<close> is dropped, from left to
  right, without overlaps.
\<close>

fun replace_dot_lt :: "string \<Rightarrow> string" where
  "replace_dot_lt (c # d # cs) =
     (if \<not> is_line_terminator c \<and> d = CHR ''<'' then CHR ''<'' # replace_dot_lt cs
      else c # replace_dot_lt (d # cs))"
| "replace_dot_lt cs = cs"

definition normalizeTypes :: "string list \<Rightarrow> string list" where
  "normalizeTypes types = map (\<lambda>name. replace_dot_lt (replace_array name)) types"

subsection \<open>normalizeParams\<close>

text \<open>
  The raw \<open>defaultvalue\<close> has type \<open>unknown\<close>; the model has the values a documentation
  comment can give it. A number is \<open>JNum i\<close> when it is an integer of magnitude below
  \<open>10\<^sup>2\<^sup>1\<close>, which \<open>String\<close> prints in decimal. Every other number (a fraction, an
  integer from \<open>10\<^sup>2\<^sup>1\<close> on, which is printed with an exponent, \<open>NaN\<close>, an infinity)
  is \<open>JNumber s\<close>, given with the string \<open>s\<close> that \<open>String\<close> returns for it: the model
  does not compute the digits of a floating point number.
\<close>

datatype jsvalue = JUndefined | JNull | JBool bool | JNum int | JNumber string | JStr string

fun String :: "jsvalue \<Rightarrow> string" where
  "String JUndefined = ''undefined''"
| "String JNull = ''null''"
| "String (JBool b) = (if b then ''true'' else ''false'')"
| "String (JNum i) = string_of_int i"
| "String (JNumber s) = s"
| "String (JStr s) = s"

text \<open>\<open>DocsJsDocType\<close>; the field \<open>type.names\<close> is \<open>jp_names\<close>.\<close>

record DocsJsDocType =
  jp_name :: string
  jp_names :: "string list"
  jp_description :: "string option"
  jp_optional :: "bool option"
  jp_defaultvalue :: jsvalue

text \<open>
  The entries of \<open>props\<close> and \<open>params\<close>: the fields of \<open>DocsType\<close> that
  \<open>normalizeParams\<close> writes and the content builder reads.
\<close>

record DocsParam =
  p_name :: string
  p_type :: "string list"
  p_description :: "string option"
  p_optional :: "bool option"
  p_defaults :: "string option"

text \<open>A string is truthy when it is not empty, a boolean when it is \<open>true\<close>.\<close>

definition truthy_str :: "string option \<Rightarrow> bool" where
  "truthy_str s = (case s of None \<Rightarrow> False | Some v \<Rightarrow> v \<noteq> [])"

definition str_of :: "string option \<Rightarrow> string" where
  "str_of s = (case s of None \<Rightarrow> [] | Some v \<Rightarrow> v)"

definition truthy_bool :: "bool option \<Rightarrow> bool" where
  "truthy_bool b = (case b of None \<Rightarrow> False | Some v \<Rightarrow> v)"

definition normalizeParam :: "DocsJsDocType \<Rightarrow> DocsParam" where
  "normalizeParam param =
     (let docType = \<lparr>p_name = jp_name param, p_type = normalizeTypes (jp_names param),
                       p_description = None, p_optional = None, p_defaults = None\<rparr>;
          docType = (if truthy_str (jp_description param)
                     then docType\<lparr>p_description := jp_description param\<rparr> else docType);
          docType = (if truthy_bool (jp_optional param)
                     then docType\<lparr>p_optional := jp_optional param\<rparr> else docType);
          docType = (if jp_defaultvalue param \<noteq> JUndefined
                     then docType\<lparr>p_defaults := Some (String (jp_defaultvalue param))\<rparr>
                     else docType)
      in docType)"

definition normalizeParams :: "DocsJsDocType list \<Rightarrow> DocsParam list" where
  "normalizeParams params = map normalizeParam params"

section \<open>Dual Renderer: the HTML walker\<close>

subsection \<open>getId\<close>

text \<open>
  \<open>trim\<close>, then \<open>.replace(/[^\w\s]|_/g, '')\<close>, then \<open>.replace(/\s+/g, '-')\<close> (one
  hyphen for each run of white space), then \<open>toLowerCase\<close>.
\<close>

definition trim :: "string \<Rightarrow> string" where
  "trim s = rev (dropWhile is_space (rev (dropWhile is_space s)))"

function hyphenate :: "string \<Rightarrow> string" where
  "hyphenate [] = []"
| "hyphenate (c # cs) =
     (if is_space c then CHR ''-'' # hyphenate (dropWhile is_space cs) else c # hyphenate cs)"
  by pat_completeness auto
termination
  by (relation "measure length") (auto simp: less_Suc_eq_le length_dropWhile_le)

definition getId :: "string \<Rightarrow> string" where
  "getId name =
     map to_lower
       (hyphenate (filter (\<lambda>c. (is_word c \<or> is_space c) \<and> c \<noteq> CHR ''_'') (trim name)))"

subsection \<open>markdownToHtml\<close>

text \<open>
  \<open>split_at_delim P d s\<close> is the shortest run of characters satisfying \<open>P\<close> after which
  \<open>d\<close> stands, with what follows \<open>d\<close>: the lazy \<open>(.*?)\<close> before a closing delimiter.
\<close>

fun split_at_delim :: "(char \<Rightarrow> bool) \<Rightarrow> string \<Rightarrow> string \<Rightarrow> (string \<times> string) option" where
  "split_at_delim P d [] = (if d = [] then Some ([], []) else None)"
| "split_at_delim P d (c # cs) =
     (if prefix d (c # cs) then Some ([], drop (length d) (c # cs))
      else if P c then
        (case split_at_delim P d cs of Some (g, a) \<Rightarrow> Some (c # g, a) | None \<Rightarrow> None)
      else None)"

text \<open>Bold: \<open>/\*\*(.*?)\*\*/g\<close> to \<open><strong>$1</strong>\<close>.\<close>

function replace_bold :: "string \<Rightarrow> string" where
  "replace_bold [] = []"
| "replace_bold (c # cs) =
     (if prefix ''**'' (c # cs) then
        (case split_at_delim (\<lambda>x. \<not> is_line_terminator x) ''**'' (drop 2 (c # cs)) of
           Some (g, a) \<Rightarrow>
             if length a < length (c # cs) then ''<strong>'' @ g @ ''</strong>'' @ replace_bold a
             else c # replace_bold cs
         | None \<Rightarrow> c # replace_bold cs)
      else c # replace_bold cs)"
  by pat_completeness auto
termination
  by (relation "measure length") auto

text \<open>Italic: \<open>/\*(.*?)\*/g\<close> to \<open><em>$1</em>\<close>.\<close>

function replace_italic :: "string \<Rightarrow> string" where
  "replace_italic [] = []"
| "replace_italic (c # cs) =
     (if c = CHR ''*'' then
        (case split_at_delim (\<lambda>x. \<not> is_line_terminator x) ''*'' cs of
           Some (g, a) \<Rightarrow>
             if length a < length (c # cs) then ''<em>'' @ g @ ''</em>'' @ replace_italic a
             else c # replace_italic cs
         | None \<Rightarrow> c # replace_italic cs)
      else c # replace_italic cs)"
  by pat_completeness auto
termination
  by (relation "measure length") auto

text \<open>Inline code: \<open>/`([^`]+)`/g\<close> to \<open><code>$1</code>\<close>.\<close>

function replace_code :: "string \<Rightarrow> string" where
  "replace_code [] = []"
| "replace_code (c # cs) =
     (if c = CHR 0x60 then
        (case split_at_delim (\<lambda>x. x \<noteq> CHR 0x60) [CHR 0x60] cs of
           Some (g, a) \<Rightarrow>
             if g \<noteq> [] \<and> length a < length (c # cs)
             then ''<code>'' @ g @ ''</code>'' @ replace_code a
             else c # replace_code cs
         | None \<Rightarrow> c # replace_code cs)
      else c # replace_code cs)"
  by pat_completeness auto
termination
  by (relation "measure length") auto

text \<open>Links: \<open>/\[([^\]]+)\]\(([^)]+)\)/g\<close> to \<open><a href="$2">$1</a>\<close>.\<close>

definition match_link :: "string \<Rightarrow> (string \<times> string \<times> string) option" where
  "match_link s =
     (case s of
        [] \<Rightarrow> None
      | c # cs \<Rightarrow>
          if c = CHR ''['' then
            (let g1 = takeWhile (\<lambda>x. x \<noteq> CHR '']'') cs;
                 r1 = dropWhile (\<lambda>x. x \<noteq> CHR '']'') cs
             in if g1 \<noteq> [] \<and> prefix '']('' r1 then
                  (let g2 = takeWhile (\<lambda>x. x \<noteq> CHR '')'') (drop 2 r1);
                       r2 = dropWhile (\<lambda>x. x \<noteq> CHR '')'') (drop 2 r1)
                   in if g2 \<noteq> [] \<and> r2 \<noteq> [] then Some (g1, g2, tl r2) else None)
                else None)
          else None)"

function replace_link :: "string \<Rightarrow> string" where
  "replace_link [] = []"
| "replace_link (c # cs) =
     (case match_link (c # cs) of
        Some (g1, g2, a) \<Rightarrow>
          if length a < length (c # cs)
          then ''<a href='' @ DQ @ g2 @ DQ @ ''>'' @ g1 @ ''</a>'' @ replace_link a
          else c # replace_link cs
      | None \<Rightarrow> c # replace_link cs)"
  by pat_completeness auto
termination
  by (relation "measure length") auto

definition markdownToHtml :: "string \<Rightarrow> string" where
  "markdownToHtml v = replace_link (replace_code (replace_italic (replace_bold v)))"

subsection \<open>Content nodes and the heading index\<close>

text \<open>
  \<open>DocsContent\<close>: the content is a string (\<open>Text\<close>) or an array of nodes (\<open>Nodes\<close>);
  \<open>tag\<close> and \<open>link\<close> are optional.
\<close>

datatype DocsContent =
    Text (str: string) (tag: "string option") (link: "string option")
  | Nodes (nodes: "DocsContent list") (tag: "string option") (link: "string option")

datatype DocsHeading =
  DocsHeading (h_id: string) (h_title: string) (h_tag: string) (h_children: "DocsHeading list option")

definition headingInfo :: "string \<Rightarrow> nat option" where
  "headingInfo =
     map_of [(''h1'', 1), (''h2'', 2), (''h3'', 3), (''h4'', 4), (''h5'', 5), (''h6'', 6)]"

text \<open>
  The walk down the last children of the last top-level heading, to the place where a
  heading below level 2 is attached. A tag without a level compares as \<open>undefined\<close>
  does: never smaller.
\<close>

definition level_below :: "string \<Rightarrow> nat \<Rightarrow> bool" where
  "level_below t targetLevel = (case headingInfo t of None \<Rightarrow> False | Some l \<Rightarrow> l < targetLevel)"

function attach :: "nat \<Rightarrow> DocsHeading \<Rightarrow> DocsHeading \<Rightarrow> DocsHeading" where
  "attach targetLevel headingData (DocsHeading i t tg ch) =
     (case ch of
        None \<Rightarrow> DocsHeading i t tg (Some [headingData])
      | Some cs \<Rightarrow>
          if level_below tg targetLevel \<and> cs \<noteq> []
          then DocsHeading i t tg (Some (butlast cs @ [attach targetLevel headingData (last cs)]))
          else DocsHeading i t tg (Some (cs @ [headingData])))"
  by pat_completeness auto
termination
proof (relation "measure (\<lambda>(targetLevel, headingData, parent). size parent)")
  show "wf (measure (\<lambda>(targetLevel, headingData, parent). size parent))" by simp
next
  fix targetLevel headingData i t tg ch and cs :: "DocsHeading list"
  assume "ch = Some cs" "level_below tg targetLevel \<and> cs \<noteq> []"
  then have "last cs \<in> set cs" by simp
  then have "size (last cs) \<le> size_list size cs" by (simp add: size_list_estimation')
  with \<open>ch = Some cs\<close>
  show "((targetLevel, headingData, last cs), (targetLevel, headingData, DocsHeading i t tg ch))
        \<in> measure (\<lambda>(targetLevel, headingData, parent). size parent)"
    by simp
qed

subsection \<open>getHtml\<close>

text \<open>
  The mutable arguments \<open>title\<close>, \<open>headings\<close>, \<open>_output\<close> and \<open>_ids\<close> are one state,
  passed through the walk. The set \<open>_ids\<close> is a list without repetitions.
\<close>

record html_state =
  title_ref :: string
  headings_ref :: "DocsHeading list"
  output_ref :: string
  ids :: "string list"

type_synonym attr = "(string \<times> string) list"

type_synonym DocsFilterAttr = "attr \<Rightarrow> DocsContent \<Rightarrow> string \<Rightarrow> attr"

text \<open>
  The loop \<open>while (_ids.has(newId))\<close>: the number of suffixes tried is bounded by the
  size of \<open>_ids\<close>, since a set of \<open>n\<close> ids cannot hold the \<open>n + 1\<close> candidates
  \<open>id-1\<close>, ..., \<open>id-(n+1)\<close>.
\<close>

definition newId :: "string \<Rightarrow> nat \<Rightarrow> string" where
  "newId i sfx = i @ ''-'' @ string_of_nat sfx"

function find_suffix :: "string list \<Rightarrow> string \<Rightarrow> nat \<Rightarrow> nat" where
  "find_suffix idset i sfx =
     (if newId i sfx \<in> set idset then find_suffix idset i (sfx + 1) else sfx)"
  by pat_completeness auto

lemma string_of_nat_not_Nil: "string_of_nat n \<noteq> []"
  by (subst string_of_nat.simps) simp

lemma digit_char_inj: "m < 10 \<Longrightarrow> n < 10 \<Longrightarrow> char_of (48 + m :: nat) = char_of (48 + n) \<Longrightarrow> m = n"
proof -
  assume a: "m < 10" "n < 10" "char_of (48 + m :: nat) = char_of (48 + n)"
  have "(of_char (char_of (48 + m :: nat)) :: nat) = of_char (char_of (48 + n))"
    using a(3) by simp
  then have "(48 + m) mod 256 = (48 + n) mod 256" by (simp only: of_char_of)
  with a(1,2) show "m = n" by simp
qed

lemma string_of_nat_inj: "string_of_nat m = string_of_nat n \<Longrightarrow> m = n"
proof (induction m arbitrary: n rule: string_of_nat.induct)
  case (1 m)
  show ?case
  proof (cases "m < 10")
    case True
    then have m: "string_of_nat m = [char_of (48 + m)]" by (subst string_of_nat.simps) simp
    show ?thesis
    proof (cases "n < 10")
      case n: True
      then have "string_of_nat n = [char_of (48 + n)]" by (subst string_of_nat.simps) simp
      with m "1.prems" True n show ?thesis by (simp add: digit_char_inj)
    next
      case False
      then have "string_of_nat n = string_of_nat (n div 10) @ [char_of (48 + n mod 10)]"
        by (subst string_of_nat.simps) simp
      with m "1.prems" string_of_nat_not_Nil [of "n div 10"] show ?thesis by simp
    qed
  next
    case False
    then have m: "string_of_nat m = string_of_nat (m div 10) @ [char_of (48 + m mod 10)]"
      by (subst string_of_nat.simps) simp
    show ?thesis
    proof (cases "n < 10")
      case True
      then have "string_of_nat n = [char_of (48 + n)]" by (subst string_of_nat.simps) simp
      with m "1.prems" string_of_nat_not_Nil [of "m div 10"] show ?thesis by simp
    next
      case n: False
      then have "string_of_nat n = string_of_nat (n div 10) @ [char_of (48 + n mod 10)]"
        by (subst string_of_nat.simps) simp
      with m "1.prems" have e: "string_of_nat (m div 10) = string_of_nat (n div 10)"
        and c: "char_of (48 + m mod 10) = char_of (48 + n mod 10)" by simp_all
      from "1.IH" [OF False e] have d: "m div 10 = n div 10" .
      have "m mod 10 = n mod 10" using c by (intro digit_char_inj) simp_all
      with d show ?thesis by (metis div_mult_mod_eq)
    qed
  qed
qed

lemma newId_inj: "newId i m = newId i n \<Longrightarrow> m = n"
  by (simp add: newId_def string_of_nat_inj)

termination find_suffix
proof (relation "measure (\<lambda>(idset, i, sfx). card {x \<in> set idset. \<exists>m\<ge>sfx. x = newId i m})")
  show "wf (measure (\<lambda>(idset, i, sfx). card {x \<in> set idset. \<exists>m\<ge>sfx. x = newId i m}))"
    by simp
next
  fix idset :: "string list" and i :: string and sfx :: nat
  assume mem: "newId i sfx \<in> set idset"
  let ?A = "{x \<in> set idset. \<exists>m\<ge>sfx + 1. x = newId i m}"
  let ?B = "{x \<in> set idset. \<exists>m\<ge>sfx. x = newId i m}"
  have "newId i sfx \<in> ?B" using mem by auto
  moreover have "newId i sfx \<notin> ?A" using newId_inj by fastforce
  moreover have "?A \<subseteq> ?B" by (auto intro: Suc_leD)
  ultimately have "?A \<subset> ?B" by blast
  then have "card ?A < card ?B" by (intro psubset_card_mono) simp_all
  then show "((idset, i, sfx + 1), (idset, i, sfx))
             \<in> measure (\<lambda>(idset, i, sfx). card {x \<in> set idset. \<exists>m\<ge>sfx. x = newId i m})"
    by simp
qed

declare find_suffix.simps [simp del]

definition heading_id :: "string list \<Rightarrow> string \<Rightarrow> string" where
  "heading_id idset c =
     (let i = getId c
      in if i \<in> set idset then newId i (find_suffix idset i 1) else i)"

definition register_heading :: "string \<Rightarrow> string \<Rightarrow> string \<Rightarrow> html_state \<Rightarrow> html_state" where
  "register_heading t c i st =
     (if t = ''h1'' then st\<lparr>title_ref := c\<rparr>
      else
        (let headingsLen = length (headings_ref st);
             headingData = DocsHeading i c t None;
             st = st\<lparr>ids := List.insert i (ids st)\<rparr>;
             st = (if headingInfo t = Some 2
                   then st\<lparr>headings_ref := headings_ref st @ [headingData]\<rparr> else st)
         in case headingInfo t of
              None \<Rightarrow> st
            | Some headingLevel \<Rightarrow>
                if headingLevel > 2 \<and> headingsLen \<noteq> 0
                then st\<lparr>headings_ref :=
                         butlast (headings_ref st) @
                         [attach (headingLevel - 1) headingData (last (headings_ref st))]\<rparr>
                else st))"

definition render_attrs :: "attr \<Rightarrow> string" where
  "render_attrs a = concat (map (\<lambda>(key, v). '' '' @ key @ ''='' @ DQ @ v @ DQ) a)"

text \<open>
  The tests at the head of \<open>getHtml\<close>. An absent \<open>tag\<close> or \<open>link\<close> and an empty one are
  both falsy, so both are read as the empty string.
\<close>

definition tag_of :: "DocsContent \<Rightarrow> string" where
  "tag_of data = (case tag data of None \<Rightarrow> [] | Some t \<Rightarrow> t)"

definition link_of :: "DocsContent \<Rightarrow> string" where
  "link_of data = (case link data of None \<Rightarrow> [] | Some l \<Rightarrow> l)"

definition isStr :: "DocsContent \<Rightarrow> bool" where
  "isStr data = (case data of Text c t l \<Rightarrow> True | Nodes cs t l \<Rightarrow> False)"

definition isHeading :: "DocsContent \<Rightarrow> bool" where
  "isHeading data = (tag_of data \<noteq> [] \<and> headingInfo (tag_of data) \<noteq> None)"

definition isLink :: "DocsContent \<Rightarrow> bool" where
  "isLink data = (link_of data \<noteq> [] \<and> tag_of data = ''a'')"

definition isHeadingLink :: "DocsContent \<Rightarrow> string \<Rightarrow> bool" where
  "isHeadingLink data outerTag = (isLink data \<and> headingInfo outerTag \<noteq> None \<and> isStr data)"

definition empty_content :: "DocsContent \<Rightarrow> bool" where
  "empty_content data = (case data of Text c t l \<Rightarrow> c = [] | Nodes cs t l \<Rightarrow> cs = [])"

text \<open>The attributes before the filter: \<open>id\<close>, \<open>href\<close>, \<open>aria-label\<close>, in this order.\<close>

definition html_attr :: "DocsContent \<Rightarrow> string \<Rightarrow> string \<Rightarrow> attr" where
  "html_attr data outerTag i =
     (let a = (if isHeading data \<and> isStr data then [(''id'', i)] else []);
          a = (if isLink data then a @ [(''href'', link_of data)] else a);
          a = (if isHeadingLink data outerTag then a @ [(''aria-label'', str data)] else a)
      in a)"

definition opening_tag :: "DocsContent \<Rightarrow> string \<Rightarrow> string" where
  "opening_tag data attrs =
     (if isLink data then ''<a'' @ attrs @ ''>''
      else if tag_of data \<noteq> [] then ''<'' @ tag_of data @ attrs @ ''>'' else [])"

definition closing_tag :: "DocsContent \<Rightarrow> string" where
  "closing_tag data =
     (if isLink data then ''</a>''
      else if tag_of data \<noteq> [] then ''</'' @ tag_of data @ ''>'' else [])"

fun html_measure :: "DocsContent \<Rightarrow> nat" where
  "html_measure (Text c t l) = (if isHeading (Text c t l) then 1 else 0)"
| "html_measure (Nodes cs t l) = Suc (sum_list (map html_measure cs))"

function getHtml :: "DocsFilterAttr \<Rightarrow> DocsContent \<Rightarrow> string \<Rightarrow> html_state \<Rightarrow> html_state" where
  "getHtml filterAttr data outerTag st =
     (if empty_content data then st
      else
        (let i = (if isHeading data \<and> isStr data then heading_id (ids st) (str data) else []);
             st = (if isHeading data \<and> isStr data
                   then register_heading (tag_of data) (str data) i st else st);
             attrs = render_attrs (filterAttr (html_attr data outerTag i) data outerTag);
             st = st\<lparr>output_ref := output_ref st @ opening_tag data attrs\<rparr>;
             st = (case data of
                     Nodes cs t l \<Rightarrow>
                       fold (\<lambda>item s. getHtml filterAttr item outerTag s) cs st
                   | Text c t l \<Rightarrow>
                       (let st = st\<lparr>output_ref := output_ref st @
                                   (if isHeadingLink data outerTag then ''#''
                                    else markdownToHtml c)\<rparr>
                        in if isHeading data
                           then getHtml filterAttr
                                  (Text (''Permalink: '' @ c) (Some ''a'') (Some (''#'' @ i)))
                                  (tag_of data) st
                           else st))
         in st\<lparr>output_ref := output_ref st @ closing_tag data\<rparr>))"
  by pat_completeness auto
termination
proof (relation "measure (\<lambda>(filterAttr, data, outerTag, st). html_measure data)", goal_cases)
  case 1
  show ?case by simp
next
  case (2 filterAttr data outerTag st)
  then show ?case
    by (simp add: isHeading_def tag_of_def headingInfo_def)
next
  case (3 filterAttr data outerTag st)
  then show ?case
    by (auto simp: member_le_sum_list less_Suc_eq_le)
qed

declare getHtml.simps [simp del]

section \<open>Navigation Assembler\<close>

text \<open>
  \<open>subject.replace(pattern, replacement)\<close> with a string pattern: the first occurrence
  only. The replacements of the source hold no \<open>$\<close> pattern.
\<close>

fun replace_first :: "string \<Rightarrow> string \<Rightarrow> string \<Rightarrow> string" where
  "replace_first pat rep [] = (if pat = [] then rep else [])"
| "replace_first pat rep (c # cs) =
     (if prefix pat (c # cs) then rep @ drop (length pat) (c # cs)
      else c # replace_first pat rep cs)"

text \<open>
  \<open>DocsNavigationItem\<close>. The entries of \<open>children\<close> are what \<open>navigationMap.get\<close>
  returned, an item or \<open>undefined\<close>.
\<close>

datatype DocsNavigationItem =
  DocsNavigationItem (n_id: string) (n_title: string) (n_link: string)
    (n_children: "DocsNavigationItem option list option")

type_synonym navigation_map = "string \<Rightarrow> DocsNavigationItem option"

text \<open>
  The inner \<open>forEach\<close> of the navigation loop: every other slug that starts with
  \<open>slug\<close> is looked up, pushed to \<open>children\<close> and deleted from the map.
\<close>

definition collect_children ::
  "string \<Rightarrow> string list \<Rightarrow> navigation_map \<Rightarrow> DocsNavigationItem option list \<times> navigation_map" where
  "collect_children slug navigationSlugs navigationMap =
     fold (\<lambda>s (children, m).
             if prefix slug s \<and> s \<noteq> slug then (children @ [m s], m(s := None))
             else (children, m))
       navigationSlugs ([], navigationMap)"

text \<open>
  One round of the outer loop. The item is read before the inner loop runs; when it is
  missing the round ends after the deletions. Each slug is the key of one object, so the
  model takes the slugs to be distinct: an item is then never read again after its
  \<open>children\<close> are set.
\<close>

definition navigation_step ::
  "string list \<Rightarrow> string \<Rightarrow> navigation_map \<times> DocsNavigationItem list \<Rightarrow>
   navigation_map \<times> DocsNavigationItem list" where
  "navigation_step navigationSlugs slug st =
     (case st of (navigationMap, navigation) \<Rightarrow>
        (let item = navigationMap slug;
             (children, navigationMap) = collect_children slug navigationSlugs navigationMap
         in case item of
              None \<Rightarrow> (navigationMap, navigation)
            | Some it \<Rightarrow>
                (let it = (if children \<noteq> []
                           then DocsNavigationItem (n_id it) (n_title it) (n_link it) (Some children)
                           else it)
                 in (navigationMap, navigation @ [it]))))"

definition assemble_navigation ::
  "string list \<Rightarrow> navigation_map \<Rightarrow> DocsNavigationItem list" where
  "assemble_navigation navigationSlugs navigationMap =
     (let navigationSlugs = sort navigationSlugs
      in snd (fold (navigation_step navigationSlugs) navigationSlugs (navigationMap, [])))"

text \<open>
  The loop of \<open>renderHtmlDocs\<close> over the pages: the slug, the id and the title of each
  page, the title being what the HTML walker found in the page's \<open>h1\<close>. The page of the
  source directory itself (\<open>relDir\<close> empty) gets no entry.
\<close>

definition page_title :: "DocsFilterAttr \<Rightarrow> DocsContent \<Rightarrow> string" where
  "page_title filterAttr data =
     title_ref (getHtml filterAttr data []
       \<lparr>title_ref = [], headings_ref = [], output_ref = [], ids = []\<rparr>)"

definition page_entry ::
  "string \<Rightarrow> DocsFilterAttr \<Rightarrow> string \<times> DocsContent \<Rightarrow> string list \<times> navigation_map \<Rightarrow>
   string list \<times> navigation_map" where
  "page_entry srcDir filterAttr entry acc =
     (case entry of (dir, data) \<Rightarrow>
      case acc of (navigationSlugs, navigationMap) \<Rightarrow>
        (let relDir = replace_first srcDir [] dir;
             slug = ''/'' @ relDir @ ''/'';
             i = map (\<lambda>c. if c = CHR ''/'' then CHR ''-'' else c) relDir
         in if relDir \<noteq> []
            then (navigationSlugs @ [slug],
                  navigationMap(slug \<mapsto>
                    DocsNavigationItem i (page_title filterAttr data) slug None))
            else (navigationSlugs, navigationMap)))"

definition page_entries ::
  "string \<Rightarrow> DocsFilterAttr \<Rightarrow> (string \<times> DocsContent) list \<Rightarrow>
   string list \<times> navigation_map" where
  "page_entries srcDir filterAttr docsEntries =
     fold (page_entry srcDir filterAttr) docsEntries ([], Map.empty)"

definition renderHtmlDocs_navigation ::
  "string \<Rightarrow> DocsFilterAttr \<Rightarrow> (string \<times> DocsContent) list \<Rightarrow> DocsNavigationItem list" where
  "renderHtmlDocs_navigation srcDir filterAttr docsEntries =
     (case page_entries srcDir filterAttr docsEntries of
        (navigationSlugs, navigationMap) \<Rightarrow> assemble_navigation navigationSlugs navigationMap)"

section \<open>Entities, results and the outside world\<close>

datatype render_type = Html | Markdown

datatype DocsKind = Function | Typedef | Class | Member | File | Constant

text \<open>
  A rejected \<open>readFile\<close> and a \<open>TypeError\<close> are the exceptions the modelled code can
  raise. \<open>OutOfFuel\<close> is the model's own outcome for a recursion cut off by its bound.
\<close>

datatype error = ReadFileError string | TypeError

datatype 'a result = OutOfFuel | Threw error | Ok 'a

fun foldM :: "('a \<Rightarrow> 's \<Rightarrow> 's result) \<Rightarrow> 'a list \<Rightarrow> 's \<Rightarrow> 's result" where
  "foldM f [] s = Ok s"
| "foldM f (x # xs) s =
     (case f x s of Ok s' \<Rightarrow> foldM f xs s' | Threw e \<Rightarrow> Threw e | OutOfFuel \<Rightarrow> OutOfFuel)"

record DocsReturn =
  r_type :: "string list"
  r_description :: "string option"

text \<open>
  The field \<open>type\<close> is a list of names on a \<open>DocsType\<close> and a \<open>DocsClass\<close>, and one alias
  name on a \<open>DocsFunction\<close>.
\<close>

datatype type_field = TypeNames "string list" | TypeAlias string

text \<open>
  \<open>DocsType\<close>, \<open>DocsFunction\<close> and \<open>DocsClass\<close> as the one shape \<open>DocsAllPartial\<close> that
  \<open>getTypeContent\<close> reads. \<open>i_ref\<close> is not a field of the source: it is the identity of
  the object, which \<open>docType === currentDocType\<close> compares. The members of a class are
  entities without members of their own.
\<close>

record DocsMember =
  i_ref :: nat
  i_name :: string
  i_type :: "type_field option"
  i_dir :: "string option"
  i_outDir :: "string option"
  i_id :: "string option"
  i_description :: "string option"
  i_desc :: "string option"
  i_props :: "DocsParam list option"
  i_params :: "DocsParam list option"
  i_augments :: "string list option"
  i_returns :: "DocsReturn option"
  i_yields :: "DocsReturn option"
  i_examples :: "string list option"

record DocsAll = DocsMember +
  i_members :: "DocsMember list option"

definition member_entity :: "DocsMember \<Rightarrow> DocsAll" where
  "member_entity m = DocsMember.extend m (DocsAll.fields None)"

text \<open>
  The module state \<open>renderType.ref\<close> and the collaborators outside the repository:
  \<open>readFile\<close> (\<open>None\<close> when the promise is rejected), \<open>path.resolve\<close>,
  \<open>path.basename\<close>, the collation of \<open>a.localeCompare(b)\<close> (here: whether \<open>a\<close> sorts
  before \<open>b\<close> or with it) and the highlighter \<open>codeToHtml\<close> (code, then language).
\<close>

record world =
  renderType_ref :: render_type
  readFile :: "string \<Rightarrow> string option"
  resolve :: "string \<Rightarrow> string \<Rightarrow> string"
  basename :: "string \<Rightarrow> string"
  localeCompare :: "string \<Rightarrow> string \<Rightarrow> bool"
  codeToHtml :: "string \<Rightarrow> string \<Rightarrow> string"

section \<open>normalizeExamples\<close>

definition tagToSymbol :: "string \<Rightarrow> string option" where
  "tagToSymbol =
     map_of [(''h1'', ''# ''),
             (''h2'', [CHR 0x0A, CHR 0x0A] @ ''## ''),
             (''h3'', [CHR 0x0A, CHR 0x0A] @ ''### ''),
             (''h4'', [CHR 0x0A, CHR 0x0A] @ ''#### ''),
             (''h5'', [CHR 0x0A, CHR 0x0A] @ ''##### ''),
             (''h6'', [CHR 0x0A, CHR 0x0A] @ ''###### ''),
             (''strong'', ''**''),
             (''code'', [CHR 0x60]),
             (''li'', ''  '' @ [CHR 0x0A] @ ''- ''),
             (''hr'', [CHR 0x0A] @ ''***''),
             (''p'', ''  '' @ [CHR 0x0A])]"

text \<open>
  The pattern of an example,
  \<open>^(?:title:\s*(.+?)\n)?(?:desc:\s*(.+?)\n)?(?:(shell|json|javascript|typescript|js|ts):\s*)?([\s\S]*)$\<close>.
  The last group matches whatever is left, so each optional group takes its first match
  in the order of backtracking, or nothing. \<open>(.+?)\n\<close> is a non-empty run up to the next
  line terminator, which has to be a line feed; \<open>\s*\<close> before it gives white space back
  one character at a time.
\<close>

definition lazy_line :: "string \<Rightarrow> (string \<times> string) option" where
  "lazy_line s =
     (let run = takeWhile (\<lambda>c. \<not> is_line_terminator c) s;
          rest = dropWhile (\<lambda>c. \<not> is_line_terminator c) s
      in if run \<noteq> [] \<and> prefix [CHR 0x0A] rest then Some (run, tl rest) else None)"

fun match_after_spaces :: "nat \<Rightarrow> string \<Rightarrow> (string \<times> string) option" where
  "match_after_spaces 0 s = lazy_line s"
| "match_after_spaces (Suc k) s =
     (case lazy_line (drop (Suc k) s) of
        Some r \<Rightarrow> Some r
      | None \<Rightarrow> match_after_spaces k s)"

definition match_label :: "string \<Rightarrow> string \<Rightarrow> (string \<times> string) option" where
  "match_label label s =
     (if prefix label s
      then (let r = drop (length label) s
            in match_after_spaces (length (takeWhile is_space r)) r)
      else None)"

definition match_lang :: "string \<Rightarrow> (string \<times> string) option" where
  "match_lang s =
     (case find (\<lambda>l. prefix (l @ '':'') s)
             [''shell'', ''json'', ''javascript'', ''typescript'', ''js'', ''ts''] of
        None \<Rightarrow> None
      | Some l \<Rightarrow> Some (l, dropWhile is_space (drop (length l + 1) s)))"

text \<open>The groups \<open>title\<close>, \<open>desc\<close>, \<open>lang\<close> and \<open>code\<close> of the match.\<close>

definition parse_example :: "string \<Rightarrow> string option \<times> string option \<times> string option \<times> string" where
  "parse_example example =
     (let (title, s1) = (case match_label ''title:'' example of
                           Some (t, r) \<Rightarrow> (Some t, r) | None \<Rightarrow> (None, example));
          (desc, s2) = (case match_label ''desc:'' s1 of
                          Some (d, r) \<Rightarrow> (Some d, r) | None \<Rightarrow> (None, s1))
      in case match_lang s2 of
           Some (l, code) \<Rightarrow> (title, desc, Some l, code)
         | None \<Rightarrow> (title, desc, None, s2))"

text \<open>The body of the loop over the examples, for one example.\<close>

definition normalizeExample ::
  "world \<Rightarrow> string \<Rightarrow> string \<Rightarrow> string \<Rightarrow> string list \<times> DocsContent list \<Rightarrow>
   (string list \<times> DocsContent list) result" where
  "normalizeExample w dir tg example acc =
     (case acc of (newExamples, newContent) \<Rightarrow>
      case parse_example example of (title, desc, lang, code) \<Rightarrow>
      case (if prefix ''.'' code
            then (case readFile w (resolve w dir code) of
                    None \<Rightarrow> Threw (ReadFileError (resolve w dir code))
                  | Some contents \<Rightarrow> Ok contents)
            else Ok code) of
        OutOfFuel \<Rightarrow> OutOfFuel
      | Threw e \<Rightarrow> Threw e
      | Ok code \<Rightarrow>
          if truthy_str title \<and> tagToSymbol tg = None then Threw TypeError
          else
            (let newExample = [];
                 newExample = (if truthy_str title
                               then newExample @
                                    replace_first [CHR 0x0A] []
                                      (case tagToSymbol tg of None \<Rightarrow> [] | Some symbol \<Rightarrow> symbol) @
                                    str_of title @ [CHR 0x0A]
                               else newExample);
                 newContent = (if truthy_str title
                               then newContent @
                                    [Text (str_of title) (Some tg) None]
                               else newContent);
                 newExample = (if truthy_str desc
                               then newExample @ [CHR 0x0A] @
                                    str_of desc @ [CHR 0x0A]
                               else newExample);
                 newContent = (if truthy_str desc
                               then newContent @
                                    [Text (str_of desc) (Some ''p'') None]
                               else newContent);
                 l = str_of lang;
                 newExample = (if l \<noteq> [] \<and> code \<noteq> []
                               then newExample @ [CHR 0x0A] @ replicate 3 (CHR 0x60) @ l @
                                    [CHR 0x0A] @ code @ [CHR 0x0A] @ replicate 3 (CHR 0x60)
                               else newExample);
                 newContent = (if l \<noteq> [] \<and> code \<noteq> [] \<and> renderType_ref w = Html
                               then newContent @ [Text (codeToHtml w code l) None None]
                               else newContent)
             in if newExample = [] then Ok (newExamples, newContent)
                else Ok (newExamples @ [newExample], newContent)))"

text \<open>The value returned: an array of content nodes, or a string.\<close>

datatype examples_result = ExamplesContent "DocsContent list" | ExamplesString string

definition join :: "string \<Rightarrow> string list \<Rightarrow> string" where
  "join sep xs = (case xs of [] \<Rightarrow> [] | x # rest \<Rightarrow> x @ concat (map (\<lambda>y. sep @ y) rest))"

definition normalizeExamples ::
  "world \<Rightarrow> string list \<Rightarrow> string \<Rightarrow> string \<Rightarrow> examples_result result" where
  "normalizeExamples w examples dir tg =
     (case foldM (normalizeExample w dir tg) examples ([], []) of
        OutOfFuel \<Rightarrow> OutOfFuel
      | Threw e \<Rightarrow> Threw e
      | Ok (newExamples, newContent) \<Rightarrow>
          if renderType_ref w = Html
          then Ok (if newContent \<noteq> [] then ExamplesContent newContent else ExamplesString [])
          else Ok (ExamplesString
                     (if newExamples \<noteq> [] then [CHR 0x0A] @ join [CHR 0x0A] newExamples else [])))"

section \<open>Type Reference Resolver: getContent\<close>

definition escape :: "string \<Rightarrow> string" where
  "escape v =
     concat (map (\<lambda>c. if c = CHR ''&'' then ''&amp;''
                        else if c = CHR ''<'' then ''&lt;''
                        else if c = CHR ''>'' then ''&gt;''
                        else if c = CHR 0x22 then ''&quot;''
                        else if c = CHR 0x27 then ''&#39;''
                        else if c = CHR ''*'' then ''&ast;''
                        else [c]) v)"

text \<open>
  \<open>typeName.match(/\b(?!(?:Promise|Object|...))\w+\b/g)\<close>: the maximal runs of word
  characters, without those that a built-in name starts. A run is skipped as a whole:
  inside it there is no word boundary to start again at.
\<close>

function word_runs :: "string \<Rightarrow> string list" where
  "word_runs s =
     (case dropWhile (\<lambda>c. \<not> is_word c) s of
        [] \<Rightarrow> []
      | c # cs \<Rightarrow> (c # takeWhile is_word cs) # word_runs (dropWhile is_word cs))"
  by pat_completeness auto
termination
proof (relation "measure length", goal_cases)
  case 1
  show ?case by simp
next
  case (2 s c cs)
  have "length (dropWhile is_word cs) \<le> length cs" by (rule length_dropWhile_le)
  also have "length cs < length (dropWhile (\<lambda>c. \<not> is_word c) s)" using 2 by simp
  also have "\<dots> \<le> length s" by (rule length_dropWhile_le)
  finally show ?case by simp
qed

declare word_runs.simps [simp del]

definition builtins :: "string list" where
  "builtins =
     [''Promise'', ''Object'', ''Array'', ''Map'', ''Set'', ''Function'', ''function'',
      ''string'', ''number'', ''boolean'', ''void'', ''null'', ''undefined'']"

definition typeMatches_of :: "string \<Rightarrow> string list" where
  "typeMatches_of typeName =
     filter (\<lambda>word. \<not> list_ex (\<lambda>k. prefix k word) builtins) (word_runs typeName)"

text \<open>
  \<open>typeName.match(/(\W)|([A-Za-z]|\d)\w*/g)\<close>: every character that is not a word
  character on its own, and every run of word characters from a letter or a digit on.
  No alternative matches at an underscore, so the search goes on behind it.
\<close>

function allMatches_of :: "string \<Rightarrow> string list" where
  "allMatches_of [] = []"
| "allMatches_of (c # cs) =
     (if \<not> is_word c then [c] # allMatches_of cs
      else if c = CHR ''_'' then allMatches_of cs
      else (c # takeWhile is_word cs) # allMatches_of (dropWhile is_word cs))"
  by pat_completeness auto
termination
  by (relation "measure length") (auto simp: less_Suc_eq_le length_dropWhile_le)

text \<open>
  The state that the resolver and the content builder share within one output unit: the
  array \<open>types\<close> and the set \<open>usedTypes\<close>.
\<close>

record resolver_state =
  types :: "DocsContent list"
  usedTypes :: "string set"

type_synonym 'a resolver = "resolver_state \<Rightarrow> ('a \<times> resolver_state) result"

text \<open>The link of a reference: an anchor of the page, or a page of another directory.\<close>

definition type_link :: "world \<Rightarrow> string \<Rightarrow> string \<Rightarrow> DocsAll \<Rightarrow> string" where
  "type_link w dir url docType =
     (let docTypeId = (case i_id docType of None \<Rightarrow> ''undefined'' | Some i \<Rightarrow> i)
      in if truthy_str (i_dir docType) \<and> i_dir docType \<noteq> Some dir
         then url @ ''/'' @
              (if truthy_str (i_outDir docType) then str_of (i_outDir docType)
               else str_of (i_dir docType)) @
              ''/'' @ (if renderType_ref w = Markdown then ''README.md'' else []) @
              ''#'' @ docTypeId
         else ''#'' @ docTypeId)"

text \<open>
  The body of the inner loop, for one token \<open>match\<close>. \<open>rec\<close> is the call of
  \<open>getTypeContent\<close> for a referenced type, with kind \<open>typedef\<close> and depth 2.
\<close>

definition resolve_match ::
  "(DocsAll \<Rightarrow> DocsContent list resolver) \<Rightarrow> world \<Rightarrow> (string \<times> DocsAll) list \<Rightarrow> nat \<Rightarrow>
   string \<Rightarrow> string \<Rightarrow> string list \<Rightarrow> string \<Rightarrow> DocsContent list \<times> resolver_state \<Rightarrow>
   (DocsContent list \<times> resolver_state) result" where
  "resolve_match rec w docTypes currentRef dir url typeMatches match acc =
     (case acc of (content, st) \<Rightarrow>
        if match \<notin> set typeMatches then Ok (content @ [Text (escape match) None None], st)
        else
          (case map_of docTypes match of
             None \<Rightarrow> Ok (content @ [Text (escape match) None None], st)
           | Some docType \<Rightarrow>
               (let content = content @
                      [Text (i_name docType) (Some ''a'') (Some (type_link w dir url docType))]
                in if i_ref docType = currentRef then Ok (content, st)
                   else if i_name docType \<in> usedTypes st then Ok (content, st)
                   else
                     (case rec docType (st\<lparr>usedTypes := insert (i_name docType) (usedTypes st)\<rparr>) of
                        OutOfFuel \<Rightarrow> OutOfFuel
                      | Threw e \<Rightarrow> Threw e
                      | Ok (c, st') \<Rightarrow> Ok (content, st'\<lparr>types := types st' @ c\<rparr>)))))"

text \<open>
  The body of the outer loop, for one name of the type expression. \<open>match\<close> returns \<open>null\<close>
  where the model has the empty list; the source then iterates \<open>undefined\<close>, which is
  a \<open>TypeError\<close> (for a name of underscores only).
\<close>

definition separate :: "DocsContent list \<Rightarrow> DocsContent list" where
  "separate content = (if content \<noteq> [] then content @ [Text '' | '' None None] else content)"

definition resolve_name ::
  "(DocsAll \<Rightarrow> DocsContent list resolver) \<Rightarrow> world \<Rightarrow> (string \<times> DocsAll) list \<Rightarrow> nat \<Rightarrow>
   string \<Rightarrow> string \<Rightarrow> string \<Rightarrow> DocsContent list \<times> resolver_state \<Rightarrow>
   (DocsContent list \<times> resolver_state) result" where
  "resolve_name rec w docTypes currentRef dir url typeName acc =
     (case acc of (content, st) \<Rightarrow>
        (let typeMatches = typeMatches_of typeName
         in if typeMatches = []
            then Ok (separate content @ [Text (escape typeName) None None], st)
            else if allMatches_of typeName = [] then Threw TypeError
            else
              (case foldM (resolve_match rec w docTypes currentRef dir url typeMatches)
                      (allMatches_of typeName) ([], st) of
                 OutOfFuel \<Rightarrow> OutOfFuel
               | Threw e \<Rightarrow> Threw e
               | Ok (c, st') \<Rightarrow> Ok (separate content @ [Nodes c None None], st'))))"

definition getContent_with ::
  "(DocsAll \<Rightarrow> DocsContent list resolver) \<Rightarrow> world \<Rightarrow> string list \<Rightarrow> (string \<times> DocsAll) list \<Rightarrow>
   nat \<Rightarrow> string \<Rightarrow> string \<Rightarrow> DocsContent list resolver" where
  "getContent_with rec w type_names docTypes currentRef dir url st =
     foldM (resolve_name rec w docTypes currentRef dir url) type_names ([], st)"

section \<open>Content Tree Builder: getTypeContent\<close>

text \<open>
  \<open>getTypeContent\<close> appends to its local array \<open>_content\<close> section after section. A
  stage is one of these sections: it takes \<open>_content\<close> and the shared state and returns
  both, or raises.
\<close>

type_synonym stage =
  "DocsContent list \<times> resolver_state \<Rightarrow> (DocsContent list \<times> resolver_state) result"

definition push :: "DocsContent list \<Rightarrow> stage" where
  "push xs acc = (case acc of (content, st) \<Rightarrow> Ok (content @ xs, st))"

definition run_stages :: "stage list \<Rightarrow> stage" where
  "run_stages stages acc = foldM (\<lambda>stg a. stg a) stages acc"

text \<open>\<open>await getContent(...)\<close>, then a push of nodes built from what it returned.\<close>

definition with_content ::
  "DocsContent list resolver \<Rightarrow> (DocsContent list \<Rightarrow> DocsContent list) \<Rightarrow> stage" where
  "with_content m f acc =
     (case acc of (content, st) \<Rightarrow>
        (case m st of
           OutOfFuel \<Rightarrow> OutOfFuel
         | Threw e \<Rightarrow> Threw e
         | Ok (c, st') \<Rightarrow> Ok (content @ f c, st')))"

definition heading :: "nat \<Rightarrow> string \<Rightarrow> DocsContent" where
  "heading level c = Text c (Some (''h'' @ string_of_nat level)) None"

text \<open>
  \<open>{ ...funcType, ...newInfo }\<close> for a function. The keys of the function's own object
  win: those of an alias function (\<open>name\<close>, \<open>description\<close>, \<open>examples\<close>, \<open>type\<close>, set even
  when undefined), or those of a plain function (\<open>name\<close>, \<open>params\<close>, and the optional
  ones that are set).
\<close>

definition spread_function :: "DocsAll \<Rightarrow> DocsAll \<Rightarrow> DocsAll" where
  "spread_function funcType info =
     (case i_type info of
        Some t \<Rightarrow>
          funcType\<lparr>i_name := i_name info, i_description := i_description info,
                    i_examples := i_examples info, i_type := i_type info\<rparr>
      | None \<Rightarrow>
          funcType\<lparr>i_name := i_name info, i_params := i_params info,
                    i_returns := (if i_returns info \<noteq> None then i_returns info
                                  else i_returns funcType),
                    i_description := (if i_description info \<noteq> None then i_description info
                                      else i_description funcType),
                    i_yields := (if i_yields info \<noteq> None then i_yields info
                                 else i_yields funcType),
                    i_examples := (if i_examples info \<noteq> None then i_examples info
                                   else i_examples funcType)\<rparr>)"

definition funcType_key :: "DocsAll \<Rightarrow> string" where
  "funcType_key info = (case i_type info of Some (TypeAlias a) \<Rightarrow> a | _ \<Rightarrow> [])"

text \<open>The signature line of a function or of a constructor.\<close>

definition signature :: "bool \<Rightarrow> DocsAll \<Rightarrow> string" where
  "signature isClass newInfo =
     (let paramsList =
            map (\<lambda>param. p_name param @ (if truthy_bool (p_optional param) then ''?'' else []) @
                          '': '' @ join '' | '' (p_type param))
              (case i_params newInfo of None \<Rightarrow> [] | Some ps \<Rightarrow> ps);
          returnsList = (case i_returns newInfo of None \<Rightarrow> [] | Some r \<Rightarrow> r_type r)
      in (if isClass then ''new '' else []) @ i_name newInfo @ ''('' @
         escape (join '', '' paramsList) @ ''): '' @
         (if isClass then i_name newInfo else escape (join '' | '' returnsList)))"

text \<open>
  One round of the loop over \<open>props\<close>, and of the loop over \<open>params\<close> that the source
  writes a second time with other names. \<open>gc\<close> is \<open>getContent\<close> with its fixed arguments.
\<close>

definition param_item ::
  "(string list \<Rightarrow> DocsContent list resolver) \<Rightarrow> bool \<Rightarrow> DocsParam \<Rightarrow> stage" where
  "param_item gc isHtml prop acc =
     (case acc of (propsList, st) \<Rightarrow>
        (case gc (p_type prop) st of
           OutOfFuel \<Rightarrow> OutOfFuel
         | Threw e \<Rightarrow> Threw e
         | Ok (propTypeContent, st') \<Rightarrow>
             (let propsTerm =
                    [Nodes [Text (p_name prop) (Some ''code'') None] (Some ''strong'') None,
                     Text '' '' None None,
                     Nodes propTypeContent (Some ''code'') None,
                     Text '' '' None None,
                     Text (if truthy_bool (p_optional prop) then ''optional'' else ''required'')
                       None None];
                  propsContent = (if isHtml then [Nodes propsTerm (Some ''dt'') None]
                                  else propsTerm);
                  propsDetails =
                    (if truthy_str (p_description prop)
                     then [Text (str_of (p_description prop)) (Some ''p'') None] else []) @
                    (if truthy_str (p_defaults prop)
                     then [Nodes [Text ''Default: '' None None,
                                  Text (str_of (p_defaults prop)) (Some ''code'') None]
                             (Some ''p'') None]
                     else []);
                  propsContent = propsContent @
                    (if isHtml then [Nodes propsDetails (Some ''dd'') None] else propsDetails)
              in Ok (propsList @
                       [Nodes propsContent (Some (if isHtml then ''div'' else ''li'')) None],
                     st'))))"

definition params_section ::
  "(string list \<Rightarrow> DocsContent list resolver) \<Rightarrow> bool \<Rightarrow> DocsContent \<Rightarrow>
   DocsParam list option \<Rightarrow> stage" where
  "params_section gc isHtml title_node props acc =
     (case props of
        None \<Rightarrow> Ok acc
      | Some ps \<Rightarrow>
          if ps = [] then Ok acc
          else
            (case acc of (content, st) \<Rightarrow>
               (case foldM (param_item gc isHtml) ps ([], st) of
                  OutOfFuel \<Rightarrow> OutOfFuel
                | Threw e \<Rightarrow> Threw e
                | Ok (propsList, st') \<Rightarrow>
                    Ok (content @
                          [title_node,
                           Nodes propsList (Some (if isHtml then ''dl'' else ''ul'')) None],
                        st'))))"

text \<open>The sections \<open>Returns\<close> and \<open>Yields\<close>.\<close>

definition returns_section ::
  "(string list \<Rightarrow> DocsContent list resolver) \<Rightarrow> DocsContent \<Rightarrow> DocsReturn option \<Rightarrow> stage" where
  "returns_section gc title_node returns acc =
     (case returns of
        None \<Rightarrow> Ok acc
      | Some r \<Rightarrow>
          with_content (gc (r_type r))
            (\<lambda>c. [title_node,
                   Nodes ([Nodes c (Some ''code'') None] @
                          (if truthy_str (r_description r)
                           then [Text '' '' None None, Text (str_of (r_description r)) None None]
                           else []))
                     (Some ''p'') None])
            acc)"

text \<open>
  One round of the loop over the members of a class. \<open>rec\<close> is the recursive call of
  \<open>getTypeContent\<close>.
\<close>

definition member_step ::
  "(DocsAll \<Rightarrow> DocsKind \<Rightarrow> nat \<Rightarrow> DocsContent list resolver) \<Rightarrow> nat \<Rightarrow> DocsMember \<Rightarrow>
   (bool \<times> bool) \<times> DocsContent list \<times> resolver_state \<Rightarrow>
   ((bool \<times> bool) \<times> DocsContent list \<times> resolver_state) result" where
  "member_step rec depth member acc =
     (case acc of ((hasPropsTitle, hasMethodsTitle), content, st) \<Rightarrow>
        (let memberIsFunction = (i_params member \<noteq> None);
             content = (if \<not> hasPropsTitle \<and> \<not> memberIsFunction
                        then content @ [heading (depth + 2) ''Properties''] else content);
             hasPropsTitle = (hasPropsTitle \<or> \<not> memberIsFunction);
             content = (if \<not> hasMethodsTitle \<and> memberIsFunction
                        then content @ [heading (depth + 2) ''Methods''] else content);
             hasMethodsTitle = (hasMethodsTitle \<or> memberIsFunction)
         in case rec (member_entity member) (if memberIsFunction then Function else Typedef)
                   (depth + 2) st of
              OutOfFuel \<Rightarrow> OutOfFuel
            | Threw e \<Rightarrow> Threw e
            | Ok (c, st') \<Rightarrow> Ok ((hasPropsTitle, hasMethodsTitle), content @ c, st')))"

definition members_section ::
  "(DocsAll \<Rightarrow> DocsKind \<Rightarrow> nat \<Rightarrow> DocsContent list resolver) \<Rightarrow> nat \<Rightarrow>
   DocsMember list option \<Rightarrow> stage" where
  "members_section rec depth members acc =
     (case members of
        None \<Rightarrow> Ok acc
      | Some ms \<Rightarrow>
          (case foldM (member_step rec depth) ms ((False, False), acc) of
             OutOfFuel \<Rightarrow> OutOfFuel
           | Threw e \<Rightarrow> Threw e
           | Ok (flags, acc') \<Rightarrow> Ok acc'))"

text \<open>The section \<open>Examples\<close>; an empty string is the one falsy value of \<open>normalizeExamples\<close>.\<close>

definition examples_section :: "world \<Rightarrow> string \<Rightarrow> nat \<Rightarrow> string list option \<Rightarrow> stage" where
  "examples_section w dir depth examples acc =
     (case examples of
        None \<Rightarrow> Ok acc
      | Some es \<Rightarrow>
          (case normalizeExamples w es dir (''h'' @ string_of_nat (depth + 3)) of
             OutOfFuel \<Rightarrow> OutOfFuel
           | Threw e \<Rightarrow> Threw e
           | Ok examplesContent \<Rightarrow>
               (case examplesContent of
                  ExamplesString joined \<Rightarrow>
                    if joined = [] then Ok acc
                    else push [heading (depth + 2) ''Examples'', Text joined None None] acc
                | ExamplesContent cs \<Rightarrow>
                    push [heading (depth + 2) ''Examples'', Nodes cs None None] acc)))"

text \<open>
  The type expression of a type alias, as \<open>for (const typeName of type)\<close> walks it: the
  names of the list, the characters of a string, and a \<open>TypeError\<close> for \<open>undefined\<close>.
\<close>

definition type_section ::
  "(string list \<Rightarrow> DocsContent list resolver) \<Rightarrow> type_field option \<Rightarrow> stage" where
  "type_section gc t acc =
     (case t of
        None \<Rightarrow> Threw TypeError
      | Some tf \<Rightarrow>
          with_content
            (gc (case tf of TypeNames ts \<Rightarrow> ts | TypeAlias a \<Rightarrow> map (\<lambda>c. [c]) a))
            (\<lambda>typeCodes. [Nodes [Text ''Type:'' (Some ''strong'') None,
                                  Text '' '' None None,
                                  Nodes typeCodes (Some ''code'') None]
                             (Some ''p'') None])
            acc)"

definition augments_section ::
  "(string list \<Rightarrow> DocsContent list resolver) \<Rightarrow> string list option \<Rightarrow> stage" where
  "augments_section gc augments acc =
     (case augments of
        None \<Rightarrow> Ok acc
      | Some names \<Rightarrow>
          with_content (gc names)
            (\<lambda>c. [Nodes [Text ''Augments:'' (Some ''strong'') None,
                          Text '' '' None None,
                          Nodes c (Some ''code'') None]
                     (Some ''p'') None])
            acc)"

text \<open>
  \<open>let newInfo = info\<close>, replaced for a function by the spread of its type alias when
  the alias is registered.
\<close>

definition newInfo_of :: "(string \<times> DocsAll) list \<Rightarrow> DocsAll \<Rightarrow> DocsKind \<Rightarrow> DocsAll" where
  "newInfo_of docTypes info kind =
     (if kind = Function
      then (case map_of docTypes (funcType_key info) of
              Some funcType \<Rightarrow> spread_function funcType info
            | None \<Rightarrow> info)
      else info)"

text \<open>
  The sections of \<open>getTypeContent\<close> after its first \<open>return\<close>, in the order of the
  source. \<open>rec\<close> stands for \<open>getTypeContent\<close> itself in the two places where it is
  called again: for a referenced type (from \<open>getContent\<close>, with the entity \<open>info\<close> as
  \<open>currentDocType\<close>) and for a member of a class.
\<close>

definition content_stages ::
  "(DocsAll \<Rightarrow> DocsKind \<Rightarrow> nat \<Rightarrow> DocsContent list resolver) \<Rightarrow> world \<Rightarrow> DocsAll \<Rightarrow> DocsAll \<Rightarrow>
   DocsKind \<Rightarrow> (string \<times> DocsAll) list \<Rightarrow> string \<Rightarrow> string \<Rightarrow> nat \<Rightarrow> stage list" where
  "content_stages rec w info newInfo kind docTypes dir url depth =
     (let isType = (kind = Typedef);
          isFunction = (kind = Function);
          isClass = (kind = Class);
          isHtml = (renderType_ref w = Html);
          gc = (\<lambda>type_names. getContent_with (\<lambda>docType. rec docType Typedef 2) w type_names
                   docTypes (i_ref info) dir url)
      in [push [heading (depth + 1) (i_name newInfo)],
          push (if isClass
                then (if truthy_str (i_description newInfo)
                      then [Text (str_of (i_description newInfo)) (Some ''p'') None] else []) @
                     [heading (depth + 2) ''Constructor'']
                else []),
          push (if isFunction \<or> isClass
                then [Nodes [Nodes [Nodes [Text (signature isClass newInfo) None None]
                                      (Some ''code'') None]
                               (Some ''strong'') None]
                        (Some ''p'') None]
                else []),
          push (if isClass \<and> truthy_str (i_desc newInfo)
                then [Text (str_of (i_desc newInfo)) (Some ''p'') None] else []),
          push (if \<not> isClass \<and> truthy_str (i_description newInfo)
                then [Text (str_of (i_description newInfo)) (Some ''p'') None] else []),
          (if isType then type_section gc (i_type newInfo) else push []),
          augments_section gc (i_augments newInfo),
          params_section gc isHtml (heading (depth + 2) ''Properties'') (i_props newInfo),
          params_section gc isHtml (heading (depth + (if isClass then 3 else 2)) ''Parameters'')
            (i_params newInfo),
          returns_section gc (heading (depth + 2) ''Returns'') (i_returns newInfo),
          returns_section gc (heading (depth + 2) ''Yields'') (i_yields newInfo),
          (if isClass then members_section rec depth (i_members newInfo) else push []),
          examples_section w dir depth (i_examples newInfo)])"

definition getTypeContent_body ::
  "(DocsAll \<Rightarrow> DocsKind \<Rightarrow> nat \<Rightarrow> DocsContent list resolver) \<Rightarrow> world \<Rightarrow> DocsAll \<Rightarrow> DocsKind \<Rightarrow>
   (string \<times> DocsAll) list \<Rightarrow> string \<Rightarrow> string \<Rightarrow> nat \<Rightarrow> DocsContent list resolver" where
  "getTypeContent_body rec w info kind docTypes dir url depth st =
     (let newInfo = newInfo_of docTypes info kind
      in if kind = Typedef \<and> i_dir newInfo \<noteq> Some dir then Ok ([], st)
         else run_stages (content_stages rec w info newInfo kind docTypes dir url depth) ([], st))"

text \<open>
  \<open>getTypeContent\<close> and \<open>getContent\<close> call each other. The first argument bounds the
  depth of these calls; the bound is shown below to be never reached when it is larger
  than the number of registered types.
\<close>

fun getTypeContent ::
  "nat \<Rightarrow> world \<Rightarrow> (string \<times> DocsAll) list \<Rightarrow> string \<Rightarrow> string \<Rightarrow> DocsAll \<Rightarrow> DocsKind \<Rightarrow> nat \<Rightarrow>
   DocsContent list resolver" where
  "getTypeContent 0 w docTypes dir url info kind depth st = OutOfFuel"
| "getTypeContent (Suc fuel) w docTypes dir url info kind depth st =
     getTypeContent_body (getTypeContent fuel w docTypes dir url) w info kind docTypes dir url
       depth st"


section \<open>getInfo\<close>

text \<open>
  \<open>DocsJsDocItem\<close>, the raw record of the parser. \<open>j_type\<close> is \<open>type.names\<close>,
  \<open>j_filename\<close>, \<open>j_filenameOut\<close> and \<open>j_code_name\<close> are \<open>meta.filename\<close>,
  \<open>meta.filenameOut\<close> and \<open>meta.code.name\<close>, \<open>j_tags\<close> are the titles of the tags,
  \<open>j_returns\<close> and \<open>j_yields\<close> are the one entry of the tuples \<open>returns\<close> and \<open>yields\<close>.
\<close>

record DocsJsDocItem =
  j_name :: string
  j_kind :: DocsKind
  j_filename :: "string option"
  j_filenameOut :: "string option"
  j_code_name :: "string option"
  j_description :: "string option"
  j_classdesc :: "string option"
  j_params :: "DocsJsDocType list option"
  j_returns :: "DocsJsDocType option"
  j_properties :: "DocsJsDocType list option"
  j_yields :: "DocsJsDocType option"
  j_type :: "string list option"
  j_augments :: "string list option"
  j_memberof :: "string option"
  j_undocumented :: "bool option"
  j_access :: "string option"
  j_tags :: "string list option"
  j_examples :: "string list option"

definition normalizeReturn :: "DocsJsDocType \<Rightarrow> DocsReturn" where
  "normalizeReturn item =
     (let docsReturn = \<lparr>r_type = normalizeTypes (jp_names item), r_description = None\<rparr>
      in if truthy_str (jp_description item)
         then docsReturn\<lparr>r_description := jp_description item\<rparr> else docsReturn)"

text \<open>An entity with its name and its identity, and no other field set.\<close>

definition blank :: "nat \<Rightarrow> string \<Rightarrow> DocsAll" where
  "blank r n =
     \<lparr>i_ref = r, i_name = n, i_type = None, i_dir = None, i_outDir = None, i_id = None,
      i_description = None, i_desc = None, i_props = None, i_params = None, i_augments = None,
      i_returns = None, i_yields = None, i_examples = None, i_members = None\<rparr>"

text \<open>
  \<open>getInfo(item, kind)\<close>; \<open>r\<close> is the identity of the object it creates. A string or an
  array that is set only when it is truthy is \<open>None\<close> otherwise.
\<close>

definition keep_str :: "string option \<Rightarrow> string option" where
  "keep_str v = (if truthy_str v then v else None)"

definition getInfo :: "nat \<Rightarrow> DocsJsDocItem \<Rightarrow> DocsKind \<Rightarrow> DocsAll" where
  "getInfo r item kind =
     (let isType = (kind = Typedef);
          isFunction = (kind = Function);
          params = (case j_params item of None \<Rightarrow> [] | Some ps \<Rightarrow> ps)
      in if isFunction \<and> j_type item \<noteq> None
         then (blank r (j_name item))
                \<lparr>i_description := j_description item, i_examples := j_examples item,
                  i_type := (case normalizeTypes (case j_type item of None \<Rightarrow> [] | Some ns \<Rightarrow> ns) of
                               [] \<Rightarrow> None | n # ns \<Rightarrow> Some (TypeAlias n))\<rparr>
         else if isFunction
         then (blank r (j_name item))
                \<lparr>i_params := Some (normalizeParams params),
                  i_returns := map_option normalizeReturn (j_returns item),
                  i_description := keep_str (j_description item),
                  i_yields := map_option normalizeReturn (j_yields item),
                  i_examples := j_examples item\<rparr>
         else if isType \<and> j_type item \<noteq> None
         then (blank r (j_name item))
                \<lparr>i_id := Some (getId (j_name item)),
                  i_type := (case j_type item of None \<Rightarrow> None
                             | Some ns \<Rightarrow> Some (TypeNames (normalizeTypes ns))),
                  i_dir := j_filename item,
                  i_outDir := keep_str (j_filenameOut item),
                  i_description := keep_str (j_description item),
                  i_props := map_option normalizeParams (j_properties item),
                  i_params := (if j_params item \<noteq> None then Some (normalizeParams params)
                               else None),
                  i_returns := map_option normalizeReturn (j_returns item),
                  i_augments := j_augments item,
                  i_examples := j_examples item\<rparr>
         else (blank r (j_name item))
                \<lparr>i_type := Some (TypeNames (case j_augments item of None \<Rightarrow> [] | Some a \<Rightarrow> a)),
                  i_id := Some (getId (j_name item)),
                  i_dir := j_filename item,
                  i_members := Some [],
                  i_outDir := keep_str (j_filenameOut item),
                  i_description := keep_str (j_classdesc item),
                  i_desc := keep_str (j_description item),
                  i_augments := j_augments item,
                  i_params := (if j_params item \<noteq> None then Some (normalizeParams params)
                               else None),
                  i_examples := j_examples item\<rparr>)"

section \<open>getDocs\<close>

text \<open>
  The arguments of \<open>getDocs\<close> that the model reads, with what the collaborators made of
  the others: \<open>a_files\<close> are the TypeScript and JavaScript files of \<open>include\<close> in the
  order of the glob, each with its directory, whether it is a file of the result, and
  the records that the parser returned for it; \<open>a_index\<close> are the records parsed from
  \<open>index\<close>.
\<close>

record DocsArgs =
  a_url :: string
  a_srcDir :: string
  a_outDir :: "string option"
  a_index :: "DocsJsDocItem list option"
  a_filterTitle :: "(string \<Rightarrow> string \<Rightarrow> string) option"
  a_files :: "(string \<times> bool \<times> DocsJsDocItem list) list"

fun includes_str :: "string \<Rightarrow> string \<Rightarrow> bool" where
  "includes_str sub [] = (sub = [])"
| "includes_str sub (c # cs) = (prefix sub (c # cs) \<or> includes_str sub cs)"

text \<open>The loop over the source files: \<open>jsdocItems\<close>, \<open>sources\<close> and \<open>exports\<close>.\<close>

definition with_meta :: "DocsArgs \<Rightarrow> string \<Rightarrow> DocsJsDocItem \<Rightarrow> DocsJsDocItem" where
  "with_meta args dir docItem =
     (let docItem = docItem\<lparr>j_filename := Some dir\<rparr>
      in if truthy_str (a_outDir args)
         then docItem\<lparr>j_filenameOut := Some (replace_first (a_srcDir args @ ''/'') [] dir)\<rparr>
         else docItem)"

definition read_file ::
  "DocsArgs \<Rightarrow> string \<times> bool \<times> DocsJsDocItem list \<Rightarrow>
   DocsJsDocItem list \<times> (string \<times> DocsJsDocItem list) list \<times> (string \<times> nat) list \<Rightarrow>
   DocsJsDocItem list \<times> (string \<times> DocsJsDocItem list) list \<times> (string \<times> nat) list" where
  "read_file args file acc =
     (case file of (dir, isResFile, docItems) \<Rightarrow>
      case acc of (jsdocItems, sources, exports) \<Rightarrow>
        (let newDocItems = map (with_meta args dir) docItems;
             jsdocItems = jsdocItems @ newDocItems
         in if \<not> isResFile then (jsdocItems, sources, exports)
            else
              (let allDocItems = (case map_of sources dir of None \<Rightarrow> [] | Some items \<Rightarrow> items) @
                                 newDocItems
               in (jsdocItems,
                   AList.update dir allDocItems sources,
                   AList.update dir
                     (length (filter (\<lambda>item. case j_code_name item of
                                                 None \<Rightarrow> False
                                               | Some n \<Rightarrow> includes_str ''export'' n)
                                allDocItems))
                     exports))))"

text \<open>
  The four registries. An object that is set in two registries is one object: both
  entries have its identity. Members are pushed to the entry of \<open>docClasses\<close>; the array
  is shared with the entry of \<open>docTypes\<close>, where no code reads it.
\<close>

record registries =
  docTypes_of :: "(string \<times> DocsAll) list"
  docVars_of :: "(string \<times> DocsAll) list"
  docFunctions_of :: "(string \<times> DocsAll) list"
  docClasses_of :: "(string \<times> DocsAll) list"

definition or_else :: "'a option \<Rightarrow> 'a option \<Rightarrow> 'a option" where
  "or_else a b = (case a of None \<Rightarrow> b | Some v \<Rightarrow> a)"

text \<open>
  \<open>{ ...classInfo, ...jsDocClass }\<close> followed by \<open>newInfo.type = classInfo.type\<close>: the
  keys of the class already registered win, but for the type.
\<close>

definition spread_class :: "nat \<Rightarrow> DocsAll \<Rightarrow> DocsAll option \<Rightarrow> DocsAll" where
  "spread_class r classInfo jsDocClass =
     (case jsDocClass of
        None \<Rightarrow> classInfo\<lparr>i_ref := r\<rparr>
      | Some j \<Rightarrow>
          \<lparr>i_ref = r, i_name = i_name j, i_type = i_type classInfo,
           i_dir = or_else (i_dir j) (i_dir classInfo),
           i_outDir = or_else (i_outDir j) (i_outDir classInfo),
           i_id = or_else (i_id j) (i_id classInfo),
           i_description = or_else (i_description j) (i_description classInfo),
           i_desc = or_else (i_desc j) (i_desc classInfo),
           i_props = or_else (i_props j) (i_props classInfo),
           i_params = or_else (i_params j) (i_params classInfo),
           i_augments = or_else (i_augments j) (i_augments classInfo),
           i_returns = or_else (i_returns j) (i_returns classInfo),
           i_yields = or_else (i_yields j) (i_yields classInfo),
           i_examples = or_else (i_examples j) (i_examples classInfo),
           i_members = or_else (i_members j) (i_members classInfo)\<rparr>)"

definition push_member :: "string \<Rightarrow> DocsAll \<Rightarrow> (string \<times> DocsAll) list \<Rightarrow> (string \<times> DocsAll) list" where
  "push_member memberof info classes =
     AList.map_entry memberof
       (\<lambda>c. case i_members c of
               None \<Rightarrow> c
             | Some ms \<Rightarrow> c\<lparr>i_members := Some (ms @ [DocsMember.truncate info])\<rparr>)
       classes"

text \<open>
  One round of \<open>jsdocItems.forEach\<close>; \<open>k\<close> is the position of the item, from which the
  identities of the objects created in this round are taken.
\<close>

definition register_item :: "nat \<times> DocsJsDocItem \<Rightarrow> registries \<Rightarrow> registries" where
  "register_item numbered regs =
     (case numbered of (k, item) \<Rightarrow>
        if j_access item = Some ''private'' \<or> truthy_bool (j_undocumented item) then regs
        else
          (let name = j_name item;
               kind = j_kind item;
               memberof = str_of (j_memberof item);
               isClassMember = truthy_str (j_memberof item);
               regs = (if isClassMember \<and> map_of (docClasses_of regs) memberof = None
                       then regs\<lparr>docClasses_of :=
                              AList.update memberof
                                ((blank (2 * k) memberof)
                                   \<lparr>i_type := Some (TypeNames []), i_members := Some []\<rparr>)
                                (docClasses_of regs)\<rparr>
                       else regs);
               regs = (if kind = Typedef \<and> j_type item \<noteq> None
                       then regs\<lparr>docTypes_of :=
                              AList.update name (getInfo (2 * k + 1) item Typedef) (docTypes_of regs)\<rparr>
                       else regs);
               regs = (if kind = Class
                       then (let newInfo = spread_class (2 * k + 1) (getInfo (2 * k + 1) item Class)
                                             (map_of (docClasses_of regs) name)
                             in regs\<lparr>docClasses_of := AList.update name newInfo (docClasses_of regs),
                                     docTypes_of := AList.update name newInfo (docTypes_of regs)\<rparr>)
                       else regs);
               regs = (if kind = Constant
                       then regs\<lparr>docVars_of :=
                              AList.update name (getInfo (2 * k + 1) item Typedef) (docVars_of regs)\<rparr>
                       else regs);
               regs = (if kind = Member
                       then (if isClassMember
                             then regs\<lparr>docClasses_of :=
                                    push_member memberof (getInfo (2 * k + 1) item Typedef)
                                      (docClasses_of regs)\<rparr>
                             else regs\<lparr>docVars_of :=
                                    AList.update name (getInfo (2 * k + 1) item Typedef)
                                      (docVars_of regs)\<rparr>)
                       else regs);
               regs = (if kind = Function
                       then (if isClassMember
                             then regs\<lparr>docClasses_of :=
                                    push_member memberof (getInfo (2 * k + 1) item Function)
                                      (docClasses_of regs)\<rparr>
                             else regs\<lparr>docFunctions_of :=
                                    AList.update name (getInfo (2 * k + 1) item Function)
                                      (docFunctions_of regs)\<rparr>)
                       else regs)
           in regs))"

definition build_registries :: "DocsJsDocItem list \<Rightarrow> registries" where
  "build_registries jsdocItems =
     fold register_item (enumerate 0 jsdocItems)
       \<lparr>docTypes_of = [], docVars_of = [], docFunctions_of = [], docClasses_of = []\<rparr>"

text \<open>
  \<open>titleCase\<close>: \<open>.replace(/([a-z])([A-Z])/g, '$1 $2')\<close>, then the first character
  in upper case.
\<close>

fun space_camel :: "string \<Rightarrow> string" where
  "space_camel (c # d # cs) =
     (if is_lower c \<and> is_upper d then c # CHR '' '' # d # space_camel cs
      else c # space_camel (d # cs))"
| "space_camel cs = cs"

definition titleCase :: "string \<Rightarrow> string" where
  "titleCase v =
     (case space_camel v of
        [] \<Rightarrow> []
      | c # cs \<Rightarrow> if is_line_terminator c then c # cs else toUpperCase c @ cs)"

text \<open>
  What the loop over the records of one directory changes: the title, the description
  and the guide of the page, the arrays \<open>vars\<close>, \<open>classes\<close> and \<open>functions\<close> with
  their sets of used names, and the state of the resolver (\<open>types\<close> and \<open>usedTypes\<close>).
\<close>

record unit_state =
  u_title :: "string option"
  u_desc :: "string option"
  u_guide :: examples_result
  u_hasIndex :: bool
  u_vars :: "DocsContent list"
  u_classes :: "DocsContent list"
  u_functions :: "DocsContent list"
  u_usedVars :: "string set"
  u_usedClasses :: "string set"
  u_usedFunctions :: "string set"
  u_resolver :: resolver_state

text \<open>
  A type alias declared in the directory: its content is appended to \<open>types\<close> unless
  its name was used before.
\<close>

definition declare_type ::
  "nat \<Rightarrow> world \<Rightarrow> (string \<times> DocsAll) list \<Rightarrow> string \<Rightarrow> string \<Rightarrow> string \<Rightarrow> resolver_state \<Rightarrow>
   resolver_state result" where
  "declare_type fuel w docTypes dir url name st =
     (case map_of docTypes name of
        None \<Rightarrow> Ok st
      | Some info \<Rightarrow>
          if name \<in> usedTypes st then Ok st
          else
            (case getTypeContent fuel w docTypes dir url info Typedef 2
                    (st\<lparr>usedTypes := insert name (usedTypes st)\<rparr>) of
               OutOfFuel \<Rightarrow> OutOfFuel
             | Threw e \<Rightarrow> Threw e
             | Ok (c, st') \<Rightarrow> Ok (st'\<lparr>types := types st' @ c\<rparr>)))"

text \<open>A variable, a function or a class declared in the directory.\<close>

definition declare_entity ::
  "nat \<Rightarrow> world \<Rightarrow> (string \<times> DocsAll) list \<Rightarrow> string \<Rightarrow> string \<Rightarrow> (string \<times> DocsAll) list \<Rightarrow>
   string \<Rightarrow> DocsKind \<Rightarrow> nat \<Rightarrow> DocsContent list \<times> string set \<times> resolver_state \<Rightarrow>
   (DocsContent list \<times> string set \<times> resolver_state) result" where
  "declare_entity fuel w docTypes dir url registry name kind depth acc =
     (case acc of (content, used, st) \<Rightarrow>
        (case map_of registry name of
           None \<Rightarrow> Ok acc
         | Some info \<Rightarrow>
             if name \<in> used then Ok acc
             else
               (case getTypeContent fuel w docTypes dir url info kind depth st of
                  OutOfFuel \<Rightarrow> OutOfFuel
                | Threw e \<Rightarrow> Threw e
                | Ok (c, st') \<Rightarrow> Ok (content @ c, insert name used, st'))))"

text \<open>One round of the loop over the records of a directory.\<close>

definition unit_item ::
  "nat \<Rightarrow> world \<Rightarrow> registries \<Rightarrow> string \<Rightarrow> string \<Rightarrow> bool \<Rightarrow> bool \<Rightarrow> DocsJsDocItem \<Rightarrow> unit_state \<Rightarrow>
   unit_state result" where
  "unit_item fuel w regs dir url single isIndex item u =
     (if j_access item = Some ''private'' \<or> truthy_bool (j_undocumented item) then Ok u
      else
        (let u = (if isIndex \<and> (case j_tags item of Some (t # ts) \<Rightarrow> t = ''index'' | _ \<Rightarrow> False)
                  then u\<lparr>u_hasIndex := True\<rparr> else u);
             name = j_name item;
             depth = (if single then 0 else 1)
         in case j_kind item of
              File \<Rightarrow>
                (case j_description item of
                   None \<Rightarrow> Threw TypeError
                 | Some description \<Rightarrow>
                     (let u = (case match_label ''title:'' description of
                                 Some (t, r) \<Rightarrow> u\<lparr>u_title := Some t, u_desc := Some r\<rparr>
                               | None \<Rightarrow> u\<lparr>u_title := None, u_desc := Some description\<rparr>)
                      in case j_examples item of
                           None \<Rightarrow> Ok u
                         | Some examples \<Rightarrow>
                             (case normalizeExamples w examples dir ''h2'' of
                                OutOfFuel \<Rightarrow> OutOfFuel
                              | Threw e \<Rightarrow> Threw e
                              | Ok guide \<Rightarrow> Ok (u\<lparr>u_guide := guide\<rparr>))))
            | Typedef \<Rightarrow>
                (case declare_type fuel w (docTypes_of regs) dir url name (u_resolver u) of
                   OutOfFuel \<Rightarrow> OutOfFuel
                 | Threw e \<Rightarrow> Threw e
                 | Ok st \<Rightarrow> Ok (u\<lparr>u_resolver := st\<rparr>))
            | Function \<Rightarrow>
                (case declare_entity fuel w (docTypes_of regs) dir url (docFunctions_of regs) name
                        Function depth (u_functions u, u_usedFunctions u, u_resolver u) of
                   OutOfFuel \<Rightarrow> OutOfFuel
                 | Threw e \<Rightarrow> Threw e
                 | Ok (c, used, st) \<Rightarrow>
                     Ok (u\<lparr>u_functions := c, u_usedFunctions := used, u_resolver := st\<rparr>))
            | Class \<Rightarrow>
                (case declare_entity fuel w (docTypes_of regs) dir url (docClasses_of regs) name
                        Class depth (u_classes u, u_usedClasses u, u_resolver u) of
                   OutOfFuel \<Rightarrow> OutOfFuel
                 | Threw e \<Rightarrow> Threw e
                 | Ok (c, used, st) \<Rightarrow>
                     Ok (u\<lparr>u_classes := c, u_usedClasses := used, u_resolver := st\<rparr>))
            | _ \<Rightarrow>
                (case declare_entity fuel w (docTypes_of regs) dir url (docVars_of regs) name
                        Typedef depth (u_vars u, u_usedVars u, u_resolver u) of
                   OutOfFuel \<Rightarrow> OutOfFuel
                 | Threw e \<Rightarrow> Threw e
                 | Ok (c, used, st) \<Rightarrow>
                     Ok (u\<lparr>u_vars := c, u_usedVars := used, u_resolver := st\<rparr>))))"

record DocsIndexItem =
  ix_title :: string
  ix_link :: string

text \<open>\<open>values.sort((a, b) => a.title.localeCompare(b.title))\<close>; the sort is stable.\<close>

fun insert_sorted :: "('a \<Rightarrow> 'a \<Rightarrow> bool) \<Rightarrow> 'a \<Rightarrow> 'a list \<Rightarrow> 'a list" where
  "insert_sorted le x [] = [x]"
| "insert_sorted le x (y # ys) = (if le x y then x # y # ys else y # insert_sorted le x ys)"

definition sort_with :: "('a \<Rightarrow> 'a \<Rightarrow> bool) \<Rightarrow> 'a list \<Rightarrow> 'a list" where
  "sort_with le xs = foldr (insert_sorted le) xs []"

definition index_section :: "world \<Rightarrow> (string \<times> DocsIndexItem list) list \<Rightarrow> DocsContent list" where
  "index_section w indexMap =
     Text ''Index'' (Some ''h2'') None #
     map (\<lambda>key.
            Nodes [Text (titleCase key) (Some ''summary'') None,
                   Nodes (map (\<lambda>v. Nodes [Text (ix_title v) (Some ''a'') (Some (ix_link v))]
                                      (Some ''li'') None)
                            (sort_with (\<lambda>a b. localeCompare w (ix_title a) (ix_title b))
                               (case map_of indexMap key of None \<Rightarrow> [] | Some vs \<Rightarrow> vs)))
                     (Some ''ul'') None]
              (Some ''details'') None)
       (sort (map fst indexMap))"

text \<open>What a directory starts with: empty arrays, empty sets, no title and no guide.\<close>

definition unit_init :: unit_state where
  "unit_init =
     \<lparr>u_title = None, u_desc = None, u_guide = ExamplesString [], u_hasIndex = False,
      u_vars = [], u_classes = [], u_functions = [],
      u_usedVars = {}, u_usedClasses = {}, u_usedFunctions = {},
      u_resolver = \<lparr>types = [], usedTypes = {}\<rparr>\<rparr>"

text \<open>
  The body of the loop over \<open>sources\<close> after the loop over the records of the
  directory: unless the directory has no content, its page is added to the result and
  to the index.
\<close>

definition unit_page ::
  "world \<Rightarrow> DocsArgs \<Rightarrow> string \<Rightarrow> bool \<Rightarrow> bool \<Rightarrow> unit_state \<Rightarrow>
   (string \<times> DocsIndexItem list) list \<times> (string \<times> DocsContent) list \<Rightarrow>
   (string \<times> DocsIndexItem list) list \<times> (string \<times> DocsContent) list" where
  "unit_page w args dir single isIndex u acc =
     (case acc of (indexMap, result) \<Rightarrow>
        (let url = a_url args;
             srcDir = a_srcDir args;
             vars = u_vars u;
             unit_types = types (u_resolver u);
             classes = u_classes u;
             functions = u_functions u
         in if vars = [] \<and> unit_types = [] \<and> classes = [] \<and> functions = [] \<and> \<not> isIndex
            then (indexMap, result)
            else
              (let unit_types = (if unit_types \<noteq> []
                                 then Text ''Types'' (Some ''h2'') None # unit_types
                                 else unit_types);
                   dirBase = basename w (replace_first srcDir [] dir);
                   dirTitleCase = titleCase dirBase;
                   dirTitle = (case a_filterTitle args of
                                 Some filterTitle \<Rightarrow>
                                   if \<not> single \<or> \<not> isIndex
                                   then filterTitle dirTitleCase dirBase else dirTitleCase
                               | None \<Rightarrow> dirTitleCase);
                   guides =
                     (if \<not> single
                      then [Text (if truthy_str (u_title u) then str_of (u_title u)
                                  else dirTitle) (Some ''h1'') None] @
                           (if truthy_str (u_desc u)
                            then [Text (str_of (u_desc u)) (Some ''p'') None] else []) @
                           [case u_guide u of
                              ExamplesString g \<Rightarrow> Text g None None
                            | ExamplesContent cs \<Rightarrow> Nodes cs None None]
                      else []);
                   guides = (if isIndex \<and> u_hasIndex u \<and> indexMap \<noteq> []
                             then guides @ index_section w indexMap else guides);
                   indexMap =
                     (if \<not> isIndex
                      then (let sectionDir =
                                  takeWhile (\<lambda>c. c \<noteq> CHR ''/'')
                                    (replace_first (srcDir @ ''/'') [] dir)
                            in AList.update sectionDir
                                 ((case map_of indexMap sectionDir of
                                     None \<Rightarrow> [] | Some vs \<Rightarrow> vs) @
                                  [\<lparr>ix_title = dirTitle,
                                    ix_link = url @ ''/'' @
                                      (if truthy_str (a_outDir args)
                                       then replace_first (srcDir @ ''/'') [] dir else dir) @
                                      ''/'' @
                                      (if renderType_ref w = Markdown then ''README.md''
                                       else [])\<rparr>])
                                 indexMap)
                      else indexMap)
               in (indexMap,
                   AList.update dir
                     (Nodes (guides @ vars @ classes @ functions @ unit_types) None None)
                     result))))"

text \<open>
  The body of the loop over \<open>sources\<close>, for one directory: the loop over its records,
  which may raise, and then its page.
\<close>

definition unit_step ::
  "nat \<Rightarrow> world \<Rightarrow> DocsArgs \<Rightarrow> registries \<Rightarrow> (string \<times> nat) list \<Rightarrow> string \<times> DocsJsDocItem list \<Rightarrow>
   (string \<times> DocsIndexItem list) list \<times> (string \<times> DocsContent) list \<Rightarrow>
   ((string \<times> DocsIndexItem list) list \<times> (string \<times> DocsContent) list) result" where
  "unit_step fuel w args regs exports source acc =
     (case source of (dir, dirDocItems) \<Rightarrow>
        (let single = (map_of exports dir = Some 1);
             isIndex = (dir = a_srcDir args \<and> a_index args \<noteq> None)
         in case foldM (unit_item fuel w regs dir (a_url args) single isIndex) dirDocItems
                   unit_init of
              OutOfFuel \<Rightarrow> OutOfFuel
            | Threw e \<Rightarrow> Threw e
            | Ok u \<Rightarrow> Ok (unit_page w args dir single isIndex u acc)))"

text \<open>
  \<open>getDocs\<close>: the loop over the source files, the records parsed from \<open>index\<close> set
  as those of the source directory, the registries, and the loop over the directories.
  The bound given to the resolver is larger than the number of registered types, which
  is enough for it to return.
\<close>

definition read_files ::
  "DocsArgs \<Rightarrow> DocsJsDocItem list \<times> (string \<times> DocsJsDocItem list) list \<times> (string \<times> nat) list" where
  "read_files args = fold (read_file args) (a_files args) ([], [], [])"

definition all_sources :: "DocsArgs \<Rightarrow> (string \<times> DocsJsDocItem list) list" where
  "all_sources args =
     (case a_index args of
        Some items \<Rightarrow> AList.update (a_srcDir args) items (fst (snd (read_files args)))
      | None \<Rightarrow> fst (snd (read_files args)))"

definition registry_of :: "DocsArgs \<Rightarrow> registries" where
  "registry_of args = build_registries (fst (read_files args))"

definition getDocs :: "world \<Rightarrow> DocsArgs \<Rightarrow> (string \<times> DocsContent) list result" where
  "getDocs w args =
     (let regs = registry_of args;
          fuel = length (docTypes_of regs) + 2
      in case foldM (unit_step fuel w args regs (snd (snd (read_files args)))) (all_sources args)
                ([], []) of
           OutOfFuel \<Rightarrow> OutOfFuel
         | Threw e \<Rightarrow> Threw e
         | Ok (indexMap, result) \<Rightarrow> Ok result)"

text \<open>
  \<open>renderMarkdownDocs\<close> and \<open>renderHtmlDocs\<close> set the module state before they call
  \<open>getDocs\<close>; what they write to files is not modelled, the state they leave is.
\<close>

definition renderMarkdownDocs :: "world \<Rightarrow> DocsArgs \<Rightarrow> world \<times> (string \<times> DocsContent) list result" where
  "renderMarkdownDocs w args =
     (let w = w\<lparr>renderType_ref := Markdown\<rparr> in (w, getDocs w args))"

definition renderHtmlDocs :: "world \<Rightarrow> DocsArgs \<Rightarrow> world \<times> (string \<times> DocsContent) list result" where
  "renderHtmlDocs w args =
     (let w = w\<lparr>renderType_ref := Html\<rparr> in (w, getDocs w args))"

section \<open>Reference targets, references and sections\<close>















definition sections :: "string \<Rightarrow> DocsContent list \<Rightarrow> nat" where
  "sections n cs = length (filter (\<lambda>c. c = Text n (Some ''h3'') None) cs)"

definition plain :: "DocsContent list \<Rightarrow> bool" where
  "plain new = (\<forall>n. sections n new = 0)"























section \<open>The forest of the navigation\<close>

text \<open>
  A slug is a root when no other slug is a prefix of it; the descendants of a slug are
  the other slugs that it is a prefix of; the item of a root has the stored items of its
  descendants as children, when there are any. \<open>stored\<close> is the item that the map has for
  a slug, and \<open>item_links\<close> are the links of an item and of the items below it.
\<close>

definition is_root :: "string list \<Rightarrow> string \<Rightarrow> bool" where
  "is_root navigationSlugs slug = (\<forall>r \<in> set navigationSlugs. prefix r slug \<longrightarrow> r = slug)"

definition descendants :: "string list \<Rightarrow> string \<Rightarrow> string list" where
  "descendants navigationSlugs slug = filter (\<lambda>s. prefix slug s \<and> s \<noteq> slug) navigationSlugs"

definition root_item :: "string list \<Rightarrow> (string \<Rightarrow> DocsNavigationItem) \<Rightarrow> string \<Rightarrow> DocsNavigationItem" where
  "root_item navigationSlugs item slug =
     (if descendants navigationSlugs slug = [] then item slug
      else DocsNavigationItem (n_id (item slug)) (n_title (item slug)) (n_link (item slug))
             (Some (map (\<lambda>s. Some (item s)) (descendants navigationSlugs slug))))"

definition deleted :: "string list \<Rightarrow> string list \<Rightarrow> string \<Rightarrow> bool" where
  "deleted xs done s = (s \<in> set xs \<and> (\<exists>r \<in> set done. prefix r s \<and> r \<noteq> s))"

definition stored :: "navigation_map \<Rightarrow> string \<Rightarrow> DocsNavigationItem" where
  "stored navigationMap slug =
     (case navigationMap slug of Some it \<Rightarrow> it | None \<Rightarrow> DocsNavigationItem [] [] slug None)"

fun item_links :: "DocsNavigationItem \<Rightarrow> string list" where
  "item_links (DocsNavigationItem i t l children) =
     l # (case children of
            None \<Rightarrow> []
          | Some cs \<Rightarrow> concat (map (\<lambda>c. case c of None \<Rightarrow> [] | Some ci \<Rightarrow> item_links ci) cs))"

section \<open>Example inputs\<close>

text \<open>
  A world without files, in the state the module starts in: paths are joined with a
  slash, the base name of a path is its last segment, titles are compared as lists of
  characters, and the highlighter returns the code as it is.
\<close>

definition path_basename :: "string \<Rightarrow> string" where
  "path_basename p = rev (takeWhile (\<lambda>c. c \<noteq> CHR ''/'') (rev p))"

definition w0 :: world where
  "w0 = \<lparr>renderType_ref = Html, readFile = (\<lambda>p. None), resolve = (\<lambda>d c. d @ ''/'' @ c),
          basename = path_basename, localeCompare = (\<lambda>a b. a \<le> b),
          codeToHtml = (\<lambda>c l. c)\<rparr>"

text \<open>A registered type \<open>Bar\<close> of the directory \<open>src/b\<close>.\<close>

definition bar :: DocsAll where
  "bar = (blank 2 ''Bar'')
     \<lparr>i_type := Some (TypeNames [''object'']), i_dir := Some ''src/b'', i_id := Some ''bar''\<rparr>"

text \<open>
  Two records as the parser returns them: a type \<open>Foo\<close> with two properties of type
  \<open>Bar\<close> and one example, and a type \<open>Bar\<close> with a property of type \<open>Foo\<close>. They are
  given to \<open>getDocs\<close> in two directories, in one directory, and in two directories with
  the example of \<open>Foo\<close> in a file.
\<close>

definition doc_item :: "string \<Rightarrow> DocsKind \<Rightarrow> DocsJsDocItem" where
  "doc_item n k =
     \<lparr>j_name = n, j_kind = k, j_filename = None, j_filenameOut = None, j_code_name = None,
      j_description = None, j_classdesc = None, j_params = None, j_returns = None,
      j_properties = None, j_yields = None, j_type = None, j_augments = None,
      j_memberof = None, j_undocumented = None, j_access = None, j_tags = None,
      j_examples = None\<rparr>"

definition property :: "string \<Rightarrow> string \<Rightarrow> DocsJsDocType" where
  "property n t =
     \<lparr>jp_name = n, jp_names = [t], jp_description = None, jp_optional = None,
      jp_defaultvalue = JUndefined\<rparr>"

definition foo_item :: DocsJsDocItem where
  "foo_item = (doc_item ''Foo'' Typedef)
     \<lparr>j_type := Some [''Object''],
      j_properties := Some [property ''bar'' ''Bar'', property ''next'' ''Bar''],
      j_examples := Some [''ts: const foo = 1'']\<rparr>"

definition bar_item :: DocsJsDocItem where
  "bar_item = (doc_item ''Bar'' Typedef)
     \<lparr>j_type := Some [''Object''], j_properties := Some [property ''foo'' ''Foo'']\<rparr>"

definition two_dirs :: DocsArgs where
  "two_dirs =
     \<lparr>a_url = ''https://docs.com'', a_srcDir = ''src'', a_outDir = None, a_index = None,
      a_filterTitle = None,
      a_files = [(''src/a'', True, [foo_item]), (''src/b'', True, [bar_item])]\<rparr>"


definition example_in_file :: DocsArgs where
  "example_in_file =
     two_dirs\<lparr>a_files := [(''src/a'', True, [foo_item\<lparr>j_examples := Some [''ts: ./foo.txt'']\<rparr>]),
                           (''src/b'', True, [bar_item])]\<rparr>"

text \<open>A registered type by its name.\<close>

definition info_of :: "DocsArgs \<Rightarrow> string \<Rightarrow> DocsAll" where
  "info_of args n = (case map_of (docTypes_of (registry_of args)) n of Some info \<Rightarrow> info | None \<Rightarrow> blank 0 n)"

definition foo_in_file :: DocsAll where
  "foo_in_file = info_of example_in_file ''Foo''"





text \<open>
  What is read off a result: the nodes of the page of a directory, and the link targets
  of a list of nodes in the order of the tree.
\<close>

definition page_of :: "(string \<times> DocsContent) list result \<Rightarrow> string \<Rightarrow> DocsContent list" where
  "page_of r dir =
     (case r of
        Ok pages \<Rightarrow> (case map_of pages dir of Some (Nodes cs t l) \<Rightarrow> cs | _ \<Rightarrow> [])
      | _ \<Rightarrow> [])"

fun links_of :: "DocsContent \<Rightarrow> string list" where
  "links_of (Text s t l) = (case l of None \<Rightarrow> [] | Some target \<Rightarrow> [target])"
| "links_of (Nodes cs t l) =
     (case l of None \<Rightarrow> [] | Some target \<Rightarrow> [target]) @ concat (map links_of cs)"

section \<open>Properties of the normalizer\<close>

lemma split_last_gt_snoc: "split_last_gt (xs @ ''>'') = Some (xs, [])"
  by (induction xs) auto

lemma replace_dot_lt_id: "CHR ''<'' \<notin> set s \<Longrightarrow> replace_dot_lt s = s"
  by (induction s rule: replace_dot_lt.induct) auto

lemma replace_array_id: "CHR ''<'' \<notin> set s \<Longrightarrow> replace_array s = s"
proof (induction s)
  case Nil
  then show ?case by simp
next
  case (Cons c cs)
  have np: "\<not> prefix ''Array.<'' (c # cs)"
  proof
    assume "prefix ''Array.<'' (c # cs)"
    then have "set ''Array.<'' \<subseteq> set (c # cs)" by (rule set_mono_prefix)
    with Cons.prems show False by auto
  qed
  have "match_array (c # cs) = None"
    unfolding match_array_def using np by (simp only: if_False)
  with Cons show ?case by simp
qed

lemma match_array_whole:
  assumes "X \<noteq> []" and "\<forall>c \<in> set X. \<not> is_line_terminator c"
  shows "match_array (''Array.<'' @ X @ ''>'') = Some (X, [])"
proof -
  have tw: "takeWhile (\<lambda>c. \<not> is_line_terminator c) (X @ ''>'') = X @ ''>''"
    using assms(2) by (simp add: is_line_terminator_def)
  have dw: "dropWhile (\<lambda>c. \<not> is_line_terminator c) (X @ ''>'') = []"
    using assms(2) by (simp add: is_line_terminator_def)
  show ?thesis
    using assms(1) by (simp add: match_array_def tw dw split_last_gt_snoc)
qed

lemma not_prefix_array:
  assumes "CHR ''<'' \<notin> set C" and "\<not> suffix ''Array'' C"
  shows "\<not> prefix ''Array.<'' (C @ ''.<'' @ T)"
proof (cases C)
  case Nil
  then show ?thesis by simp
next
  case c1: (Cons a1 t1)
  show ?thesis
  proof (cases t1)
    case Nil
    with c1 show ?thesis by simp
  next
    case c2: (Cons a2 t2)
    show ?thesis
    proof (cases t2)
      case Nil
      with c1 c2 show ?thesis by simp
    next
      case c3: (Cons a3 t3)
      show ?thesis
      proof (cases t3)
        case Nil
        with c1 c2 c3 show ?thesis by simp
      next
        case c4: (Cons a4 t4)
        show ?thesis
        proof (cases t4)
          case Nil
          with c1 c2 c3 c4 show ?thesis by simp
        next
          case c5: (Cons a5 t5)
          show ?thesis
          proof (cases t5)
            case Nil
            with c1 c2 c3 c4 c5 assms show ?thesis by (auto simp: suffix_def)
          next
            case c6: (Cons a6 t6)
            show ?thesis
            proof (cases t6)
              case Nil
              with c1 c2 c3 c4 c5 c6 show ?thesis by simp
            next
              case (Cons a7 t7)
              with c1 c2 c3 c4 c5 c6 assms show ?thesis by auto
            qed
          qed
        qed
      qed
    qed
  qed
qed

lemma replace_array_other:
  assumes "CHR ''<'' \<notin> set C" and "\<not> suffix ''Array'' C" and "CHR ''<'' \<notin> set X"
  shows "replace_array (C @ ''.<'' @ X @ ''>'') = C @ ''.<'' @ X @ ''>''"
  using assms
proof (induction C)
  case Nil
  have "replace_array (X @ ''>'') = X @ ''>''"
    using Nil by (intro replace_array_id) simp
  then show ?case by (simp add: match_array_def)
next
  case (Cons c C)
  have "\<not> suffix ''Array'' C"
    using Cons.prems(2) by (auto simp: suffix_Cons)
  then have ih: "replace_array (C @ ''.<'' @ X @ ''>'') = C @ ''.<'' @ X @ ''>''"
    using Cons by simp
  have "\<not> prefix ''Array.<'' ((c # C) @ ''.<'' @ (X @ ''>''))"
    using Cons.prems(1,2) by (rule not_prefix_array)
  then have "match_array ((c # C) @ ''.<'' @ X @ ''>'') = None"
    unfolding match_array_def by (simp only: if_False)
  then show ?case using ih by simp
qed

lemma replace_dot_lt_other:
  assumes "CHR ''<'' \<notin> set C" and "CHR ''<'' \<notin> set X"
  shows "replace_dot_lt (C @ ''.<'' @ X @ ''>'') = C @ ''<'' @ X @ ''>''"
  using assms
proof (induction C rule: replace_dot_lt.induct, goal_cases)
  case (1 c d cs)
  then show ?case by auto
next
  case 2
  have "replace_dot_lt (X @ ''>'') = X @ ''>''"
    using 2 by (intro replace_dot_lt_id) simp
  then show ?case by (simp add: is_line_terminator_def)
next
  case (3 v)
  have "replace_dot_lt (X @ ''>'') = X @ ''>''"
    using 3 by (intro replace_dot_lt_id) simp
  with 3 show ?case by (simp add: is_line_terminator_def)
qed

text \<open>
  C5, as stated: every generic container \<open>Container.<Item>\<close> is rewritten to \<open>Item[]\<close>.
  The code rewrites \<open>Array.<...>\<close> only; on the claim's own example it removes the dot
  and keeps the container.
\<close>

theorem normalizeTypes_container_counterexample:
  "normalizeTypes [''Container.<Item>''] \<noteq> [''Item[]'']"
  by (simp add: normalizeTypes_def match_array_def)

text \<open>
  C5, amended: a name \<open>Array.<Item>\<close> (\<open>Item\<close> not empty, on one line, without \<open><\<close>)
  is rewritten to \<open>Item[]\<close>; for a container name \<open>C\<close> that does not end in \<open>Array\<close>,
  \<open>C.<Item>\<close> is rewritten to \<open>C<Item>\<close>, the dot removed.
\<close>

theorem normalizeTypes_generic:
  assumes "X \<noteq> []" and "\<forall>c \<in> set X. \<not> is_line_terminator c" and "CHR ''<'' \<notin> set X"
    and "CHR ''<'' \<notin> set C" and "\<not> suffix ''Array'' C"
  shows "normalizeTypes [''Array.<'' @ X @ ''>''] = [X @ ''[]''] \<and>
         normalizeTypes [C @ ''.<'' @ X @ ''>''] = [C @ ''<'' @ X @ ''>'']"
proof -
  have "replace_array (''Array.<'' @ X @ ''>'') = X @ ''[]''"
    using match_array_whole [OF assms(1,2)] by simp
  moreover have "replace_dot_lt (X @ ''[]'') = X @ ''[]''"
    using assms(3) by (intro replace_dot_lt_id) simp
  moreover have "replace_array (C @ ''.<'' @ X @ ''>'') = C @ ''.<'' @ X @ ''>''"
    using assms(4,5,3) by (rule replace_array_other)
  moreover have "replace_dot_lt (C @ ''.<'' @ X @ ''>'') = C @ ''<'' @ X @ ''>''"
    using assms(4,3) by (rule replace_dot_lt_other)
  ultimately show ?thesis by (simp add: normalizeTypes_def)
qed

theorem normalizeTypes_generic_witness:
  "normalizeTypes [''Array.<Item>''] = [''Item[]''] \<and>
   normalizeTypes [''Promise.<Item>''] = [''Promise<Item>'']"
proof -
  have h1: "''Item'' \<noteq> []" by simp
  have h2: "\<forall>c \<in> set ''Item''. \<not> is_line_terminator c" by (simp add: is_line_terminator_def)
  have h3: "CHR ''<'' \<notin> set ''Item''" by simp
  have h4: "CHR ''<'' \<notin> set ''Promise''" by simp
  have h5: "\<not> suffix ''Array'' ''Promise''" by (simp add: suffix_to_prefix)
  show ?thesis
    using normalizeTypes_generic [OF h1 h2 h3 h4 h5] by simp
qed

text \<open>
  C7: a normalized parameter or property has a \<open>defaults\<close> field exactly when the raw
  \<open>defaultvalue\<close> is not \<open>undefined\<close>, and the field is the string form of the raw value;
  so the falsy defaults \<open>0\<close>, \<open>false\<close> and the empty string are recorded.
\<close>

theorem normalizeParams_defaults:
  "map p_defaults (normalizeParams params) =
     map (\<lambda>param. if jp_defaultvalue param = JUndefined then None
                   else Some (String (jp_defaultvalue param))) params \<and>
   String (JNum 0) = ''0'' \<and> String (JBool False) = ''false'' \<and> String (JStr []) = []"
proof -
  have z: "string_of_int 0 = ''0''" by code_simp
  show ?thesis
    by (simp add: normalizeParams_def normalizeParam_def Let_def z)
qed

section \<open>Properties of the HTML walker\<close>

lemma headingInfo_tag: "headingInfo tg = Some lvl \<Longrightarrow> tg \<noteq> [] \<and> tg \<noteq> ''a''"
  by (auto simp: headingInfo_def)

lemma headingInfo_a: "headingInfo ''a'' = None"
  by (simp add: headingInfo_def)

text \<open>The call for the permalink of a heading: one anchor, no further call.\<close>

lemma permalink_step:
  assumes "headingInfo tg = Some lvl" and "p \<noteq> []"
  shows "getHtml filterAttr (Text p (Some ''a'') (Some (CHR ''#'' # i))) tg st =
    st\<lparr>output_ref := output_ref st @ ''<a'' @
       render_attrs (filterAttr [(''href'', CHR ''#'' # i), (''aria-label'', p)]
          (Text p (Some ''a'') (Some (CHR ''#'' # i))) tg) @ ''>#</a>''\<rparr>"
  using assms
  by (subst getHtml.simps)
     (simp add: empty_content_def isHeading_def isStr_def tag_of_def link_of_def isLink_def
        isHeadingLink_def html_attr_def opening_tag_def closing_tag_def headingInfo_a Let_def)

lemma heading_step:
  assumes "headingInfo tg = Some lvl" and "c \<noteq> []"
  shows "getHtml filterAttr (Text c (Some tg) l) outerTag st =
    (let i = heading_id (ids st) c; st1 = register_heading tg c i st in
     st1\<lparr>output_ref := output_ref st1 @ ''<'' @ tg @
       render_attrs (filterAttr [(''id'', i)] (Text c (Some tg) l) outerTag) @ ''>'' @
       markdownToHtml c @ ''<a'' @
       render_attrs (filterAttr [(''href'', ''#'' @ i), (''aria-label'', ''Permalink: '' @ c)]
          (Text (''Permalink: '' @ c) (Some ''a'') (Some (''#'' @ i))) tg) @
       ''>#</a>'' @ ''</'' @ tg @ ''>''\<rparr>)"
  using assms headingInfo_tag [OF assms(1)]
  by (subst getHtml.simps)
     (simp add: empty_content_def isHeading_def isStr_def tag_of_def link_of_def isLink_def
        isHeadingLink_def html_attr_def opening_tag_def closing_tag_def Let_def
        permalink_step [OF assms(1)])

lemma register_heading_output: "output_ref (register_heading tg c i st) = output_ref st"
  by (simp add: register_heading_def Let_def split: option.splits)

lemma register_heading_low:
  assumes "headingInfo tg = Some lvl" and "3 \<le> lvl" and "headings_ref st = []"
  shows "headings_ref (register_heading tg c i st) = []"
  using assms by (auto simp: register_heading_def Let_def headingInfo_def split: if_splits)

text \<open>
  C3, at the failing input: a page whose \<open>h1\<close> and whose first \<open>h2\<close> have the same text
  (the directory \<open>types\<close> with its \<open>Types\<close> section). The id of an \<open>h1\<close> is not added
  to \<open>_ids\<close>, so both headings are emitted with the id \<open>types\<close>.
\<close>

theorem getHtml_h1_h2_same_id:
  "output_ref (getHtml (\<lambda>a d t. a)
      (Nodes [Text ''Types'' (Some ''h1'') None, Text ''Types'' (Some ''h2'') None] None None) []
      \<lparr>title_ref = [], headings_ref = [], output_ref = [], ids = []\<rparr>) =
   ''<h1 id='' @ DQ @ ''types'' @ DQ @ ''>Types<a href='' @ DQ @ ''#types'' @ DQ @
   '' aria-label='' @ DQ @ ''Permalink: Types'' @ DQ @ ''>#</a></h1>'' @
   ''<h2 id='' @ DQ @ ''types'' @ DQ @ ''>Types<a href='' @ DQ @ ''#types'' @ DQ @
   '' aria-label='' @ DQ @ ''Permalink: Types'' @ DQ @ ''>#</a></h2>''"
  by code_simp

text \<open>
  C10: a heading of level 3 to 6 with a non-empty text, walked while the heading index
  is still empty, leaves the index empty, whatever the attribute filter; with the
  default filter its element is written to the output with the id assigned to it and
  with its permalink.
\<close>

theorem getHtml_heading_before_h2:
  assumes "headingInfo tg = Some lvl" and "3 \<le> lvl" and "c \<noteq> []" and "headings_ref st = []"
  shows "headings_ref (getHtml filterAttr (Text c (Some tg) l) outerTag st) = [] \<and>
    output_ref (getHtml (\<lambda>a d t. a) (Text c (Some tg) l) outerTag st) =
      output_ref st @ ''<'' @ tg @ '' id='' @ DQ @ heading_id (ids st) c @ DQ @ ''>'' @
      markdownToHtml c @
      ''<a href='' @ DQ @ ''#'' @ heading_id (ids st) c @ DQ @
      '' aria-label='' @ DQ @ ''Permalink: '' @ c @ DQ @ ''>#</a></'' @ tg @ ''>''"
  by (simp add: heading_step [OF assms(1,3)] Let_def register_heading_low [OF assms(1,2,4)]
      register_heading_output render_attrs_def)

theorem getHtml_heading_before_h2_witness:
  "headings_ref (getHtml (\<lambda>a d t. a) (Text ''Intro'' (Some ''h3'') None) []
      \<lparr>title_ref = [], headings_ref = [], output_ref = [], ids = []\<rparr>) = [] \<and>
   output_ref (getHtml (\<lambda>a d t. a) (Text ''Intro'' (Some ''h3'') None) []
      \<lparr>title_ref = [], headings_ref = [], output_ref = [], ids = []\<rparr>) =
     ''<h3 id='' @ DQ @ ''intro'' @ DQ @ ''>Intro<a href='' @ DQ @ ''#intro'' @ DQ @
     '' aria-label='' @ DQ @ ''Permalink: Intro'' @ DQ @ ''>#</a></h3>''"
proof -
  have h1: "headingInfo ''h3'' = Some 3" by (simp add: headingInfo_def)
  have h2: "(3::nat) \<le> 3" by simp
  have h3: "''Intro'' \<noteq> []" by simp
  have h4: "headings_ref \<lparr>title_ref = [], headings_ref = [], output_ref = [], ids = []\<rparr> = []"
    by simp
  have i: "heading_id [] ''Intro'' = ''intro''" by code_simp
  have m: "markdownToHtml ''Intro'' = ''Intro''" by code_simp
  show ?thesis
    using getHtml_heading_before_h2 [OF h1 h2 h3 h4, of "\<lambda>a d t. a" None "[]"]
    by (simp add: i m)
qed

section \<open>Properties of the Navigation Assembler\<close>

text \<open>
  In the sorted slugs a prefix comes before what it is a prefix of. The loop of
  \<open>assemble_navigation\<close> therefore reaches a slug without a prefix among the slugs
  first, gives it all the slugs after it that it is a prefix of as children, and
  deletes them from the map; a deleted slug is skipped when the loop reaches it.
\<close>

lemma strict_prefix_less:
  fixes r s :: string
  assumes "prefix r s" and "r \<noteq> s"
  shows "r < s"
proof -
  from assms obtain zs where "s = r @ zs" "zs \<noteq> []" by (auto simp: prefix_def)
  then obtain b z where "s = r @ b # z" by (cases zs) auto
  then show ?thesis by (simp add: list_less_def lexord_append_rightI)
qed

lemma prefixes_comparable: "prefix r s \<Longrightarrow> prefix x s \<Longrightarrow> prefix r x \<or> prefix x r"
  by (metis prefix_same_cases)

lemma collect_children_fold:
  assumes "distinct ys"
  shows "fold (\<lambda>s (children, m).
             if prefix slug s \<and> s \<noteq> slug then (children @ [m s], m(s := None))
             else (children, m)) ys (ch, mm) =
         (ch @ map mm (filter (\<lambda>s. prefix slug s \<and> s \<noteq> slug) ys),
          (\<lambda>s. if s \<in> set ys \<and> prefix slug s \<and> s \<noteq> slug then None else mm s))"
  using assms
proof (induction ys arbitrary: ch mm)
  case Nil
  then show ?case by simp
next
  case (Cons y ys)
  have *: "map (mm(y := None)) (filter (\<lambda>s. prefix slug s \<and> s \<noteq> slug) ys) =
           map mm (filter (\<lambda>s. prefix slug s \<and> s \<noteq> slug) ys)"
    using Cons.prems by (intro map_cong) auto
  show ?case
    using Cons.prems by (auto simp: Cons.IH * fun_eq_iff)
qed

lemma collect_children_eq:
  "distinct xs \<Longrightarrow>
   collect_children slug xs m =
     (map m (descendants xs slug),
      (\<lambda>s. if s \<in> set xs \<and> prefix slug s \<and> s \<noteq> slug then None else m s))"
  unfolding collect_children_def descendants_def
  using collect_children_fold [of xs slug "[]" m] by simp

lemma navigation_fold:
  assumes d: "distinct xs" and so: "sorted xs"
    and m: "\<And>s. s \<in> set xs \<Longrightarrow> m s = Some (item s)"
    and xs: "xs = done @ rest"
  shows "snd (fold (navigation_step xs) rest
                ((\<lambda>s. if deleted xs done s then None else m s),
                 map (root_item xs item) (filter (is_root xs) done))) =
         map (root_item xs item) (filter (is_root xs) xs)"
  using xs
proof (induction rest arbitrary: "done")
  case Nil
  then show ?case by simp
next
  case (Cons x rest)
  let ?m' = "\<lambda>s. if deleted xs done s then None else m s"
  have x_in: "x \<in> set xs" using Cons.prems by simp
  have before: "r \<in> set done" if "r \<in> set xs" "prefix r x" "r \<noteq> x" for r
  proof -
    from that have "r < x" by (intro strict_prefix_less)
    moreover have "\<forall>y \<in> set rest. x \<le> y"
      using so Cons.prems by (auto simp: sorted_append)
    ultimately have "r \<notin> set rest" by auto
    with that Cons.prems show ?thesis by auto
  qed
  have del_x: "deleted xs done x \<longleftrightarrow> \<not> is_root xs x"
    using before x_in Cons.prems by (auto simp: deleted_def is_root_def)
  have step_map: "(\<lambda>s. if s \<in> set xs \<and> prefix x s \<and> s \<noteq> x then None else ?m' s) =
                  (\<lambda>s. if deleted xs (done @ [x]) s then None else m s)"
    by (auto simp: deleted_def fun_eq_iff)
  have kids: "map ?m' (descendants xs x) = map (\<lambda>s. Some (item s)) (descendants xs x)"
    if root: "is_root xs x"
  proof (intro map_cong refl)
    fix s
    assume "s \<in> set (descendants xs x)"
    then have s: "s \<in> set xs" "prefix x s" "s \<noteq> x" by (auto simp: descendants_def)
    have "\<not> deleted xs done s"
    proof
      assume "deleted xs done s"
      then obtain r where r: "r \<in> set done" "prefix r s" "r \<noteq> s" by (auto simp: deleted_def)
      have rx: "r \<noteq> x" "r \<in> set xs" using r(1) d Cons.prems by auto
      from prefixes_comparable [OF r(2) s(2)] show False
      proof
        assume "prefix r x"
        with root rx show False by (auto simp: is_root_def)
      next
        assume "prefix x r"
        with rx have "x < r" by (intro strict_prefix_less) auto
        moreover have "r \<le> x" using so Cons.prems r(1) by (auto simp: sorted_append)
        ultimately show False by simp
      qed
    qed
    with m [OF s(1)] show "?m' s = Some (item s)" by simp
  qed
  have step: "navigation_step xs x (?m', map (root_item xs item) (filter (is_root xs) done)) =
              ((\<lambda>s. if deleted xs (done @ [x]) s then None else m s),
               map (root_item xs item) (filter (is_root xs) (done @ [x])))"
  proof (cases "is_root xs x")
    case True
    then have "?m' x = Some (item x)" using del_x m [OF x_in] by simp
    then show ?thesis
      using True kids [OF True]
      by (simp add: navigation_step_def collect_children_eq [OF d] step_map root_item_def Let_def)
  next
    case False
    then have "?m' x = None" using del_x by simp
    then show ?thesis
      using False
      by (simp add: navigation_step_def collect_children_eq [OF d] step_map Let_def)
  qed
  have "xs = (done @ [x]) @ rest" using Cons.prems by simp
  from Cons.IH [OF this] step show ?case by simp
qed

lemma assemble_navigation_forest:
  assumes "distinct navigationSlugs"
    and "\<forall>s \<in> set navigationSlugs. navigationMap s = Some (item s)"
  shows "assemble_navigation navigationSlugs navigationMap =
           map (root_item (sort navigationSlugs) item)
             (filter (is_root navigationSlugs) (sort navigationSlugs))"
proof -
  let ?xs = "sort navigationSlugs"
  have r: "is_root ?xs = is_root navigationSlugs" by (simp add: is_root_def fun_eq_iff)
  have "snd (fold (navigation_step ?xs) ?xs
                ((\<lambda>s. if deleted ?xs [] s then None else navigationMap s),
                 map (root_item ?xs item) (filter (is_root ?xs) []))) =
         map (root_item ?xs item) (filter (is_root ?xs) ?xs)"
    by (rule navigation_fold) (use assms in auto)
  then show ?thesis
    by (simp add: assemble_navigation_def Let_def deleted_def r)
qed

lemma root_exists:
  assumes "s \<in> set xs"
  shows "\<exists>r \<in> set xs. is_root xs r \<and> prefix r s"
  using assms
proof (induction s rule: length_induct)
  case (1 s)
  show ?case
  proof (cases "is_root xs s")
    case True
    with 1 show ?thesis by auto
  next
    case False
    then obtain r' where r': "r' \<in> set xs" "prefix r' s" "r' \<noteq> s" by (auto simp: is_root_def)
    then have "length r' < length s"
      by (metis prefix_length_le le_neq_implies_less prefix_length_prefix prefix_order.eq_iff)
    with 1 r' obtain r where "r \<in> set xs" "is_root xs r" "prefix r r'" by blast
    with r'(2) show ?thesis by (auto intro: prefix_order.trans)
  qed
qed

lemma concat_singletons: "(\<And>s. s \<in> set ys \<Longrightarrow> f s = [s]) \<Longrightarrow> concat (map f ys) = ys"
  by (induction ys) auto

lemma root_item_links:
  assumes "\<And>s. s \<in> set xs \<Longrightarrow> n_link (item s) = s \<and> n_children (item s) = None" and "r \<in> set xs"
  shows "item_links (root_item xs item r) = r # descendants xs r"
proof -
  have l: "item_links (item s) = [s]" if "s \<in> set xs" for s
    using assms(1) [OF that] by (cases "item s") auto
  have "concat (map (\<lambda>c. case c of None \<Rightarrow> [] | Some ci \<Rightarrow> item_links ci)
          (map (\<lambda>s. Some (item s)) (descendants xs r))) = descendants xs r"
    unfolding map_map by (rule concat_singletons) (auto simp: descendants_def l)
  then show ?thesis
    using l [OF assms(2)] assms(1) [OF assms(2)] by (cases "item r") (auto simp: root_item_def)
qed

lemma forest_links_set:
  "set (concat (map (\<lambda>r. r # descendants xs r) (filter (is_root xs) xs))) = set xs"
proof (intro set_eqI iffI)
  fix s
  assume "s \<in> set (concat (map (\<lambda>r. r # descendants xs r) (filter (is_root xs) xs)))"
  then show "s \<in> set xs" by (auto simp: descendants_def)
next
  fix s
  assume "s \<in> set xs"
  from root_exists [OF this] obtain r where r: "r \<in> set xs" "is_root xs r" "prefix r s" by blast
  then have "s \<in> set (r # descendants xs r)" using \<open>s \<in> set xs\<close> by (auto simp: descendants_def)
  with r show "s \<in> set (concat (map (\<lambda>r. r # descendants xs r) (filter (is_root xs) xs)))"
    by auto
qed

lemma forest_links_distinct:
  assumes "distinct xs"
  shows "distinct (concat (map (\<lambda>r. r # descendants xs r) (filter (is_root xs) xs)))"
proof (rule distinct_concat)
  show "distinct (map (\<lambda>r. r # descendants xs r) (filter (is_root xs) xs))"
    using assms by (auto simp: distinct_map inj_on_def)
next
  fix ys
  assume "ys \<in> set (map (\<lambda>r. r # descendants xs r) (filter (is_root xs) xs))"
  then show "distinct ys" using assms by (auto simp: descendants_def)
next
  fix ys zs
  assume "ys \<in> set (map (\<lambda>r. r # descendants xs r) (filter (is_root xs) xs))"
    and "zs \<in> set (map (\<lambda>r. r # descendants xs r) (filter (is_root xs) xs))" and ne: "ys \<noteq> zs"
  then obtain r1 r2 where r: "r1 \<in> set xs" "is_root xs r1" "ys = r1 # descendants xs r1"
    "r2 \<in> set xs" "is_root xs r2" "zs = r2 # descendants xs r2" by auto
  with ne have n: "r1 \<noteq> r2" by auto
  have "False" if "prefix r1 s" "prefix r2 s" for s
    using prefixes_comparable [OF that] r n by (auto simp: is_root_def)
  then show "set ys \<inter> set zs = {}"
    using r n by (auto simp: descendants_def is_root_def)
qed

lemma page_entries_fold:
  assumes "\<forall>s \<in> set (fst acc). \<exists>i t. snd acc s = Some (DocsNavigationItem i t s None)"
  shows "\<forall>s \<in> set (fst (fold (page_entry srcDir filterAttr) docsEntries acc)).
           \<exists>i t. snd (fold (page_entry srcDir filterAttr) docsEntries acc) s =
                    Some (DocsNavigationItem i t s None)"
  using assms
proof (induction docsEntries arbitrary: acc)
  case Nil
  then show ?case by simp
next
  case (Cons e es)
  have "\<forall>s \<in> set (fst (page_entry srcDir filterAttr e acc)).
          \<exists>i t. snd (page_entry srcDir filterAttr e acc) s = Some (DocsNavigationItem i t s None)"
    using Cons.prems
    by (cases e; cases acc) (auto simp: page_entry_def Let_def)
  from Cons.IH [OF this] show ?case by simp
qed

lemma page_entries_items:
  assumes "s \<in> set (fst (page_entries srcDir filterAttr docsEntries))"
  shows "snd (page_entries srcDir filterAttr docsEntries) s =
           Some (stored (snd (page_entries srcDir filterAttr docsEntries)) s) \<and>
         n_link (stored (snd (page_entries srcDir filterAttr docsEntries)) s) = s \<and>
         n_children (stored (snd (page_entries srcDir filterAttr docsEntries)) s) = None"
proof -
  have "\<forall>s \<in> set (fst (page_entries srcDir filterAttr docsEntries)).
          \<exists>i t. snd (page_entries srcDir filterAttr docsEntries) s = Some (DocsNavigationItem i t s None)"
    unfolding page_entries_def by (rule page_entries_fold) simp
  with assms show ?thesis by (auto simp: stored_def)
qed

text \<open>
  C8, amended: the slugs are sorted and folded into a forest of depth at most two. The
  items of the result are those of the slugs that no other slug is a prefix of, in
  sorted order; the children of such an item are the stored items of all the other slugs
  that its slug is a prefix of, in sorted order and without children of their own. So
  every slug with a prefix among the slugs is a direct child of the shortest of its
  prefixes, not of the nearest one, and nothing is nested further. When the slugs are
  distinct, no slug appears twice in the result and every slug appears.
\<close>

theorem navigation_forest:
  assumes "distinct (fst (page_entries srcDir filterAttr docsEntries))"
  shows "renderHtmlDocs_navigation srcDir filterAttr docsEntries =
           map (root_item (sort (fst (page_entries srcDir filterAttr docsEntries)))
                  (stored (snd (page_entries srcDir filterAttr docsEntries))))
             (filter (is_root (fst (page_entries srcDir filterAttr docsEntries)))
                (sort (fst (page_entries srcDir filterAttr docsEntries)))) \<and>
         distinct (concat (map item_links (renderHtmlDocs_navigation srcDir filterAttr docsEntries))) \<and>
         set (concat (map item_links (renderHtmlDocs_navigation srcDir filterAttr docsEntries))) =
           set (fst (page_entries srcDir filterAttr docsEntries))"
proof -
  let ?slugs = "fst (page_entries srcDir filterAttr docsEntries)"
  let ?m = "snd (page_entries srcDir filterAttr docsEntries)"
  let ?xs = "sort ?slugs"
  have r: "is_root ?xs = is_root ?slugs" by (simp add: is_root_def fun_eq_iff)
  have eq: "renderHtmlDocs_navigation srcDir filterAttr docsEntries =
            map (root_item ?xs (stored ?m)) (filter (is_root ?slugs) ?xs)"
    unfolding renderHtmlDocs_navigation_def
    using assemble_navigation_forest [OF assms, of ?m "stored ?m"] page_entries_items
    by (auto simp: split_beta)
  have links: "map item_links (map (root_item ?xs (stored ?m)) (filter (is_root ?xs) ?xs)) =
               map (\<lambda>r. r # descendants ?xs r) (filter (is_root ?xs) ?xs)"
    unfolding map_map
    by (intro map_cong refl, simp only: o_def, rule root_item_links)
       (use page_entries_items in \<open>auto\<close>)
  have d: "distinct ?xs" using assms by simp
  show ?thesis
    using eq forest_links_distinct [OF d] forest_links_set [of ?xs]
    by (simp add: r [symmetric] links del: map_map)
qed

text \<open>
  The pages of the directories \<open>src/b\<close>, \<open>src/a/x\<close> and \<open>src/a\<close>: two items, the
  first with one child.
\<close>

theorem navigation_forest_witness:
  "distinct (fst (page_entries ''src'' (\<lambda>a d t. a)
      [(''src/b'', Nodes [Text ''B'' (Some ''h1'') None] None None),
       (''src/a/x'', Nodes [Text ''X'' (Some ''h1'') None] None None),
       (''src/a'', Nodes [Text ''A'' (Some ''h1'') None] None None)])) \<and>
   renderHtmlDocs_navigation ''src'' (\<lambda>a d t. a)
      [(''src/b'', Nodes [Text ''B'' (Some ''h1'') None] None None),
       (''src/a/x'', Nodes [Text ''X'' (Some ''h1'') None] None None),
       (''src/a'', Nodes [Text ''A'' (Some ''h1'') None] None None)] =
   [DocsNavigationItem ''-a'' ''A'' ''//a/''
      (Some [Some (DocsNavigationItem ''-a-x'' ''X'' ''//a/x/'' None)]),
    DocsNavigationItem ''-b'' ''B'' ''//b/'' None] \<and>
   set (concat (map item_links (renderHtmlDocs_navigation ''src'' (\<lambda>a d t. a)
      [(''src/b'', Nodes [Text ''B'' (Some ''h1'') None] None None),
       (''src/a/x'', Nodes [Text ''X'' (Some ''h1'') None] None None),
       (''src/a'', Nodes [Text ''A'' (Some ''h1'') None] None None)]))) =
   {''//a/'', ''//a/x/'', ''//b/''}"
proof -
  let ?e = "[(''src/b'', Nodes [Text ''B'' (Some ''h1'') None] None None),
       (''src/a/x'', Nodes [Text ''X'' (Some ''h1'') None] None None),
       (''src/a'', Nodes [Text ''A'' (Some ''h1'') None] None None)]"
  have d: "distinct (fst (page_entries ''src'' (\<lambda>a d t. a) ?e))" by code_simp
  have s: "set (fst (page_entries ''src'' (\<lambda>a d t. a) ?e)) = {''//a/'', ''//a/x/'', ''//b/''}"
    by code_simp
  have v: "renderHtmlDocs_navigation ''src'' (\<lambda>a d t. a) ?e =
   [DocsNavigationItem ''-a'' ''A'' ''//a/''
      (Some [Some (DocsNavigationItem ''-a-x'' ''X'' ''//a/x/'' None)]),
    DocsNavigationItem ''-b'' ''B'' ''//b/'' None]" by code_simp
  from navigation_forest [OF d]
  have l: "set (concat (map item_links (renderHtmlDocs_navigation ''src'' (\<lambda>a d t. a) ?e))) =
           set (fst (page_entries ''src'' (\<lambda>a d t. a) ?e))"
    by (rule conjunct2 [THEN conjunct2])
  from d v l [unfolded s] show ?thesis by (intro conjI)
qed

text \<open>
  C8, as stated, at the pages of the directories \<open>src/a\<close>, \<open>src/a/b\<close> and
  \<open>src/a/b/c\<close>. The slug of \<open>a/b\<close> is a path-prefix of the slug of \<open>a/b/c\<close>, and the
  nearest one; the code nests \<open>a/b/c\<close> under \<open>a\<close>, beside \<open>a/b\<close>.
\<close>

theorem navigation_three_levels:
  "renderHtmlDocs_navigation ''src'' (\<lambda>a d t. a)
     [(''src/a/b/c'', Nodes [Text ''C'' (Some ''h1'') None] None None),
      (''src/a'', Nodes [Text ''A'' (Some ''h1'') None] None None),
      (''src/a/b'', Nodes [Text ''B'' (Some ''h1'') None] None None)] =
   [DocsNavigationItem ''-a'' ''A'' ''//a/''
      (Some [Some (DocsNavigationItem ''-a-b'' ''B'' ''//a/b/'' None),
             Some (DocsNavigationItem ''-a-b-c'' ''C'' ''//a/b/c/'' None)])]"
  by code_simp

section \<open>Properties of the Type Reference Resolver\<close>

subsection \<open>Loops and relations on the shared state\<close>

















lemma sections_append [simp]: "sections n (xs @ ys) = sections n xs + sections n ys"
  by (simp add: sections_def)

lemma sections_Nil [simp]: "sections n [] = 0"
  by (simp add: sections_def)




lemma plain_Nil [simp]: "plain []"
  by (simp add: plain_def)

lemma plain_append [simp]: "plain (xs @ ys) = (plain xs \<and> plain ys)"
  by (auto simp: plain_def)

lemma plain_Nodes [simp]: "plain (Nodes cs t l # xs) = plain xs"
  by (simp add: plain_def sections_def)

lemma plain_Text [simp]: "t \<noteq> Some ''h3'' \<Longrightarrow> plain (Text c t l # xs) = plain xs"
  by (simp add: plain_def sections_def)

lemma string_of_nat_3: "string_of_nat 3 = ''3''"
  by code_simp


lemma plain_heading [simp]: "level \<noteq> 3 \<Longrightarrow> plain (heading level c # xs) = plain xs"
proof -
  assume "level \<noteq> 3"
  then have "string_of_nat level \<noteq> ''3''"
    using string_of_nat_inj [of level 3] by (auto simp: string_of_nat_3)
  then show ?thesis by (simp add: heading_def)
qed













subsection \<open>The bound is not reached\<close>
































subsection \<open>Every reference marks the entity as used\<close>













subsection \<open>What is appended to types\<close>









subsection \<open>The used types are closed under references\<close>












subsection \<open>The loop over the records of a directory\<close>

















subsection \<open>The registries are keyed by name\<close>




lemma getInfo_name [simp]: "i_name (getInfo r item kind) = j_name item"
  by (simp add: getInfo_def blank_def Let_def)





subsection \<open>One section for each used type of the directory\<close>







subsection \<open>Termination, and two types that refer to each other\<close>







subsection \<open>Link targets\<close>







section \<open>Properties of normalizeExamples\<close>






















section \<open>Properties of getDocs\<close>

text \<open>
  C9: \<open>getDocs\<close> reads the module state \<open>renderType.ref\<close>, which
  \<open>renderMarkdownDocs\<close> and \<open>renderHtmlDocs\<close> set and leave set. Called with the same
  arguments after the one and after the other it returns different results: the links
  to a type of another directory end in \<open>README.md#bar\<close> after the one and in \<open>#bar\<close>
  after the other, and the content of the example is a string after the one and an
  array of nodes after the other.
\<close>

theorem getDocs_depends_on_renderType:
  "fst (renderMarkdownDocs w args) = w\<lparr>renderType_ref := Markdown\<rparr> \<and>
   fst (renderHtmlDocs w args) = w\<lparr>renderType_ref := Html\<rparr> \<and>
   concat (map links_of (page_of (getDocs (fst (renderMarkdownDocs w0 two_dirs)) two_dirs) ''src/a'')) =
     [''https://docs.com/src/b/README.md#bar'', ''https://docs.com/src/b/README.md#bar''] \<and>
   concat (map links_of (page_of (getDocs (fst (renderHtmlDocs w0 two_dirs)) two_dirs) ''src/a'')) =
     [''https://docs.com/src/b/#bar'', ''https://docs.com/src/b/#bar''] \<and>
   last (page_of (getDocs (fst (renderMarkdownDocs w0 two_dirs)) two_dirs) ''src/a'') =
     Text ([CHR 0x0A, CHR 0x0A] @ replicate 3 (CHR 0x60) @ ''ts'' @ [CHR 0x0A] @ ''const foo = 1'' @
           [CHR 0x0A] @ replicate 3 (CHR 0x60)) None None \<and>
   last (page_of (getDocs (fst (renderHtmlDocs w0 two_dirs)) two_dirs) ''src/a'') =
     Nodes [Text ''const foo = 1'' None None] None None \<and>
   getDocs (fst (renderMarkdownDocs w0 two_dirs)) two_dirs \<noteq>
   getDocs (fst (renderHtmlDocs w0 two_dirs)) two_dirs"
proof (intro conjI)
  show "fst (renderMarkdownDocs w args) = w\<lparr>renderType_ref := Markdown\<rparr>"
    by (simp add: renderMarkdownDocs_def Let_def)
  show "fst (renderHtmlDocs w args) = w\<lparr>renderType_ref := Html\<rparr>"
    by (simp add: renderHtmlDocs_def Let_def)
qed code_simp+

end
